theory Spec2Isabelle
  imports Complex_Main "HOL-Library.Word"
begin

section \<open>JavaScript strings and values\<close>

text \<open>
  A JavaScript string is a sequence of UTF-16 code units. String literals of the source
  are written \<open>js ''...''\<close>. A request field, a header or a provider payload is
  either absent (\<open>Undefined\<close>), \<open>null\<close> or a string; other JSON shapes are not
  modelled.
\<close>

type_synonym jschar = "16 word"
type_synonym jsstring = "jschar list"

definition js :: "string \<Rightarrow> jsstring" where
  "js s = map of_char s"

datatype jsval = Undefined | Null | Str jsstring

fun truthy :: "jsval \<Rightarrow> bool" where
  "truthy (Str s) = (s \<noteq> [])"
| "truthy Undefined = False"
| "truthy Null = False"

text \<open>Conversion to string inside a template literal \<^verbatim>\<open>`${v}`\<close>.\<close>

fun to_string :: "jsval \<Rightarrow> jsstring" where
  "to_string (Str s) = s"
| "to_string Undefined = js ''undefined''"
| "to_string Null = js ''null''"

text \<open>
  The class \<^verbatim>\<open>\s\<close> of a regular expression, which is also what \<^verbatim>\<open>trim\<close>
  strips: WhiteSpace and LineTerminator code points of ECMAScript.
\<close>

definition is_line_terminator :: "jschar \<Rightarrow> bool" where
  "is_line_terminator c = (c = 0x0A \<or> c = 0x0D \<or> c = 0x2028 \<or> c = 0x2029)"

definition is_space :: "jschar \<Rightarrow> bool" where
  "is_space c =
     (is_line_terminator c \<or> c = 0x09 \<or> c = 0x0B \<or> c = 0x0C \<or> c = 0x20 \<or> c = 0xA0
      \<or> c = 0x1680 \<or> (0x2000 \<le> c \<and> c \<le> 0x200A) \<or> c = 0x202F \<or> c = 0x205F
      \<or> c = 0x3000 \<or> c = 0xFEFF)"

definition trim :: "jsstring \<Rightarrow> jsstring" where
  "trim s = rev (dropWhile is_space (rev (dropWhile is_space s)))"

text \<open>
  Under the flag \<^verbatim>\<open>i\<close> (without \<^verbatim>\<open>u\<close>) a character is compared through its
  upper-case form, and a character outside ASCII never canonicalises into ASCII; so
  against the ASCII letters of the two patterns only ASCII letters match.
\<close>

definition is_letter :: "jschar \<Rightarrow> bool" where
  "is_letter c = ((0x41 \<le> c \<and> c \<le> 0x5A) \<or> (0x61 \<le> c \<and> c \<le> 0x7A))"

definition canonicalize :: "jschar \<Rightarrow> jschar" where
  "canonicalize c = (if 0x61 \<le> c \<and> c \<le> 0x7A then c - 0x20 else c)"

text \<open>\<^verbatim>\<open>toLowerCase\<close>, applied by the source to two matched ASCII letters only.\<close>

definition toLowerCase :: "jsstring \<Rightarrow> jsstring" where
  "toLowerCase s = map (\<lambda>c. if 0x41 \<le> c \<and> c \<le> 0x5A then c + 0x20 else c) s"

subsection \<open>The two tag patterns\<close>

text \<open>
  \<^verbatim>\<open>/LANGUAGE:\s*([a-z]{2})/i\<close> and \<^verbatim>\<open>/CORRECTED:\s*(.+)/i\<close>, as a
  backtracking matcher: the literal, then a greedy run of \<^verbatim>\<open>\s\<close> that gives
  characters back when the rest fails, then the captured group. \<open>search\<close> is
  \<^verbatim>\<open>String.prototype.match\<close> without the flag \<^verbatim>\<open>g\<close>: the leftmost match, and
  the value returned is capture group 1.
\<close>

fun match_literal :: "jsstring \<Rightarrow> jsstring \<Rightarrow> jsstring option" where
  "match_literal [] s = Some s"
| "match_literal (l # ls) [] = None"
| "match_literal (l # ls) (c # cs) =
     (if canonicalize c = canonicalize l then match_literal ls cs else None)"

fun match_spaces :: "(jsstring \<Rightarrow> jsstring option) \<Rightarrow> jsstring \<Rightarrow> jsstring option" where
  "match_spaces k [] = k []"
| "match_spaces k (c # cs) =
     (if is_space c
      then (case match_spaces k cs of Some r \<Rightarrow> Some r | None \<Rightarrow> k (c # cs))
      else k (c # cs))"

definition two_letters :: "jsstring \<Rightarrow> jsstring option" where
  "two_letters s =
     (case s of
        a # b # _ \<Rightarrow> if is_letter a \<and> is_letter b then Some [a, b] else None
      | _ \<Rightarrow> None)"

definition rest_of_line :: "jsstring \<Rightarrow> jsstring option" where
  "rest_of_line s =
     (let m = takeWhile (\<lambda>c. \<not> is_line_terminator c) s
      in if m = [] then None else Some m)"

fun search :: "(jsstring \<Rightarrow> jsstring option) \<Rightarrow> jsstring \<Rightarrow> jsstring option" where
  "search m [] = m []"
| "search m (c # cs) = (case m (c # cs) of Some r \<Rightarrow> Some r | None \<Rightarrow> search m cs)"

definition tag_pattern ::
  "jsstring \<Rightarrow> (jsstring \<Rightarrow> jsstring option) \<Rightarrow> jsstring \<Rightarrow> jsstring option" where
  "tag_pattern lit grp s =
     (case match_literal lit s of None \<Rightarrow> None | Some r \<Rightarrow> match_spaces grp r)"

definition langMatch :: "jsstring \<Rightarrow> jsstring option" where
  "langMatch response = search (tag_pattern (js ''LANGUAGE:'') two_letters) response"

definition correctedMatch :: "jsstring \<Rightarrow> jsstring option" where
  "correctedMatch response = search (tag_pattern (js ''CORRECTED:'') rest_of_line) response"

section \<open>Data model\<close>

text \<open>
  A stored turn is \<^verbatim>\<open>{role, content}\<close>, with \<^verbatim>\<open>metadata\<close> on the turns that
  \<^verbatim>\<open>/handle-speech\<close> appends.
\<close>

datatype metadata =
    NoMetadata
  | UserMetadata (originalLanguage: jsstring) (original: jsval)
  | AssistantMetadata (language_of: jsstring)

record chat_message =
  role :: jsstring
  content :: jsval
  metadata :: metadata

record chat_request =
  model :: jsstring
  messages :: "chat_message list"
  temperature :: rat
  max_tokens :: nat

text \<open>
  What \<^verbatim>\<open>openai.chat.completions.create\<close> resolves to: of each choice only
  \<^verbatim>\<open>message.content\<close> is read.
\<close>

datatype completion = Completion (choices: "jsval list")

datatype error =
    ProviderFailure jsstring
  | TypeError
  | NoAudioData
  | FsFailure jsstring

text \<open>
  The value of a property read \<^verbatim>\<open>obj[key]\<close> on an object literal: an own property,
  or a member inherited from \<^verbatim>\<open>Object.prototype\<close> (a function, or the prototype
  itself for \<^verbatim>\<open>__proto__\<close>), which is truthy.
\<close>

datatype propval = Own jsstring | Inherited jsstring

record tts_request =
  inputs :: "jsval list"
  target_language_code :: propval
  tts_speaker :: jsstring
  tts_model :: jsstring
  tts_pitch :: rat
  tts_pace :: rat
  tts_loudness :: rat
  enable_preprocessing :: bool
  speech_sample_rate :: nat

text \<open>\<^verbatim>\<open>sarvamResponse.data.audios\<close>: absent, or an array of payloads.\<close>

datatype tts_response = TtsResponse (audios: "jsval list option")

record voice =
  voice_model :: jsstring
  speaker :: jsstring
  voice_language :: jsstring
  pitch :: rat
  pace :: rat
  loudness :: rat

text \<open>
  The configuration module \<^verbatim>\<open>config/data.js\<close> and the constants of the server
  file that are long texts: \<open>correctionPrompt\<close> is the fixed instruction of
  \<^verbatim>\<open>detectLanguageAndCorrect\<close>, \<open>dirname\<close> is \<^verbatim>\<open>__dirname\<close>.
\<close>

record config =
  systemPrompt :: jsstring
  correctionPrompt :: jsstring
  voiceConfig :: voice
  openAI_model :: jsstring
  openAI_temperature :: rat
  openAI_maxTokens :: nat
  twilio_language :: jsstring
  twilio_speechTimeout :: jsstring
  dirname :: jsstring

text \<open>
  The external collaborators of one request: the two HTTP providers as functions of the
  request they receive, the identifier and clock sources, the process environment, and
  whether writing a file fails.
\<close>

record env =
  openai_create :: "chat_request \<Rightarrow> error + completion"
  axios_post :: "tts_request \<Rightarrow> error + tts_response"
  uuidv4 :: jsstring
  Date_now :: nat
  SARVAM_API_KEY :: jsval
  PUBLIC_URL :: jsval
  writeFile_fails :: "error option"

section \<open>Language correction\<close>

record correction =
  language :: jsstring
  correctedText :: jsval

definition correction_request :: "config \<Rightarrow> jsval \<Rightarrow> chat_request" where
  "correction_request cfg text =
     \<lparr>model = js ''gpt-4o-mini'',
      messages =
        [\<lparr>role = js ''system'', content = Str (correctionPrompt cfg), metadata = NoMetadata\<rparr>,
         \<lparr>role = js ''user'', content = text, metadata = NoMetadata\<rparr>],
      temperature = 0,
      max_tokens = 150\<rparr>"

text \<open>
  \<^verbatim>\<open>completion.choices[0].message.content\<close>: reading through a missing first
  choice throws a TypeError.
\<close>

definition first_content :: "completion \<Rightarrow> error + jsval" where
  "first_content c = (case choices c of [] \<Rightarrow> Inl TypeError | x # _ \<Rightarrow> Inr x)"

text \<open>The body of the \<^verbatim>\<open>try\<close> block.\<close>

definition detect_try :: "env \<Rightarrow> config \<Rightarrow> jsval \<Rightarrow> error + correction" where
  "detect_try e cfg text =
     (case openai_create e (correction_request cfg text) of
        Inl err \<Rightarrow> Inl err
      | Inr completion \<Rightarrow>
          (case first_content completion of
             Inl err \<Rightarrow> Inl err
           | Inr (Str c) \<Rightarrow>
               (let response = trim c;
                    detectedLang = (case langMatch response of
                                      Some m \<Rightarrow> toLowerCase m
                                    | None \<Rightarrow> js ''en'');
                    corrected = (case correctedMatch response of
                                   Some m \<Rightarrow> Str (trim m)
                                 | None \<Rightarrow> text)
                in Inr \<lparr>language = detectedLang, correctedText = corrected\<rparr>)
           | Inr _ \<Rightarrow> Inl TypeError))"

text \<open>The function: the \<^verbatim>\<open>catch\<close> block answers every error with the default.\<close>

definition detectLanguageAndCorrect :: "env \<Rightarrow> config \<Rightarrow> jsval \<Rightarrow> error + correction" where
  "detectLanguageAndCorrect e cfg text =
     (case detect_try e cfg text of
        Inr r \<Rightarrow> Inr r
      | Inl err \<Rightarrow> Inr \<lparr>language = js ''en'', correctedText = text\<rparr>)"

section \<open>Property lookup in the two language tables\<close>

text \<open>
  \<^verbatim>\<open>languageMapping[code]\<close> and \<^verbatim>\<open>languageNames[code]\<close> read a property of an
  object literal: an own property when the table has the key, else a member inherited
  from \<^verbatim>\<open>Object.prototype\<close> when the key names one, else \<^verbatim>\<open>undefined\<close>.
\<close>

definition object_prototype_keys :: "jsstring list" where
  "object_prototype_keys =
     [js ''constructor'', js ''__proto__'', js ''hasOwnProperty'', js ''isPrototypeOf'',
      js ''propertyIsEnumerable'', js ''toLocaleString'', js ''toString'', js ''valueOf'',
      js ''__defineGetter__'', js ''__defineSetter__'', js ''__lookupGetter__'',
      js ''__lookupSetter__'']"

definition get_property :: "(jsstring \<times> jsstring) list \<Rightarrow> jsstring \<Rightarrow> propval option" where
  "get_property obj key =
     (case map_of obj key of
        Some v \<Rightarrow> Some (Own v)
      | None \<Rightarrow> if key \<in> set object_prototype_keys then Some (Inherited key) else None)"

text \<open>The left operand of \<^verbatim>\<open>||\<close> is kept when it is truthy.\<close>

definition or_default :: "propval option \<Rightarrow> jsstring \<Rightarrow> propval" where
  "or_default v d =
     (case v of
        Some (Own x) \<Rightarrow> if x = [] then Own d else Own x
      | Some (Inherited k) \<Rightarrow> Inherited k
      | None \<Rightarrow> Own d)"

definition languageMapping :: "(jsstring \<times> jsstring) list" where
  "languageMapping =
     [(js ''en'', js ''en-IN''), (js ''hi'', js ''hi-IN''), (js ''ta'', js ''ta-IN''),
      (js ''te'', js ''te-IN''), (js ''ml'', js ''ml-IN''), (js ''kn'', js ''kn-IN''),
      (js ''mr'', js ''mr-IN''), (js ''bn'', js ''bn-IN''), (js ''gu'', js ''gu-IN''),
      (js ''pa'', js ''pa-IN'')]"

definition getSarvamLanguageCode :: "jsstring \<Rightarrow> propval" where
  "getSarvamLanguageCode googleLangCode =
     or_default (get_property languageMapping googleLangCode) (js ''en-IN'')"

definition languageNames :: "(jsstring \<times> jsstring) list" where
  "languageNames =
     [(js ''en'', js ''English''), (js ''hi'', js ''Hindi''), (js ''ta'', js ''Tamil''),
      (js ''te'', js ''Telugu''), (js ''ml'', js ''Malayalam''), (js ''kn'', js ''Kannada''),
      (js ''mr'', js ''Marathi''), (js ''bn'', js ''Bengali''), (js ''gu'', js ''Gujarati''),
      (js ''pa'', js ''Punjabi'')]"

definition languageName_of :: "jsstring \<Rightarrow> propval" where
  "languageName_of detectedLanguage =
     or_default (get_property languageNames detectedLanguage) (js ''English'')"

text \<open>
  A property value inside a template literal. An inherited member prints as Node prints
  a native function (\<^verbatim>\<open>constructor\<close> is the function \<^verbatim>\<open>Object\<close>), the prototype
  object as \<^verbatim>\<open>[object Object]\<close>.
\<close>

definition prop_text :: "propval \<Rightarrow> jsstring" where
  "prop_text v =
     (case v of
        Own x \<Rightarrow> x
      | Inherited k \<Rightarrow>
          if k = js ''__proto__'' then js ''[object Object]''
          else if k = js ''constructor'' then js ''function Object() { [native code] }''
          else js ''function '' @ k @ js ''() { [native code] }'')"

text \<open>The language codes that the \<^verbatim>\<open>([a-z]{2})\<close> group can yield after lower-casing.\<close>

definition is_language_code :: "jsstring \<Rightarrow> bool" where
  "is_language_code k = (length k = 2 \<and> list_all (\<lambda>c. 0x61 \<le> c \<and> c \<le> 0x7A) k)"

section \<open>Server state, files and timers\<close>

text \<open>
  The two process-wide maps, the files of the audio directory (a path with the base64
  payload whose decoding was written to it), and the pending one-shot timers with the
  file each will clean and its delay. A timeout identifier is a number. Every handler
  runs to its end before the next starts, so that pushing onto the array stored under a
  call identifier is an update of the map at that identifier; a timer may fire between
  two handlers.
\<close>

record server =
  conversationHistory :: "jsval \<rightharpoonup> chat_message list"
  audioCleanupQueue :: "jsstring \<rightharpoonup> nat"
  timers :: "nat \<rightharpoonup> jsstring \<times> nat"
  next_timer :: nat
  files :: "jsstring \<rightharpoonup> jsstring"

definition initial_server :: "(jsstring \<rightharpoonup> jsstring) \<Rightarrow> server" where
  "initial_server fs =
     \<lparr>conversationHistory = Map.empty, audioCleanupQueue = Map.empty, timers = Map.empty,
      next_timer = 0, files = fs\<rparr>"

definition existsSync :: "server \<Rightarrow> jsstring \<Rightarrow> bool" where
  "existsSync s p = (files s p \<noteq> None)"

text \<open>
  \<^verbatim>\<open>fs.unlinkSync\<close> throws on an absent path, and it may throw on a file that is there
  (a file that is open or protected, a directory): \<open>refused\<close> is what the file system
  throws then, if anything.
\<close>

definition unlinkSync :: "error option \<Rightarrow> jsstring \<Rightarrow> server \<Rightarrow> error + server" where
  "unlinkSync refused p s =
     (if files s p = None then Inl (FsFailure (js ''ENOENT''))
      else (case refused of
              Some err \<Rightarrow> Inl err
            | None \<Rightarrow> Inr (s\<lparr>files := (files s)(p := None)\<rparr>)))"

text \<open>
  \<^verbatim>\<open>mkdirSync\<close> when the directory is missing, then \<^verbatim>\<open>writeFileSync\<close>: either
  may throw, as the environment decides.
\<close>

definition writeFileSync :: "env \<Rightarrow> jsstring \<Rightarrow> jsstring \<Rightarrow> server \<Rightarrow> error + server" where
  "writeFileSync e p d s =
     (case writeFile_fails e of
        Some err \<Rightarrow> Inl err
      | None \<Rightarrow> Inr (s\<lparr>files := (files s)(p \<mapsto> d)\<rparr>))"

subsection \<open>Audio file management\<close>

text \<open>
  The \<^verbatim>\<open>try\<close> block of the timer callback of \<^verbatim>\<open>scheduleAudioCleanup\<close>: the
  entry of the queue is deleted after the file, so not at all when deleting the file
  throws.
\<close>

definition cleanup_try :: "error option \<Rightarrow> jsstring \<Rightarrow> server \<Rightarrow> error + server" where
  "cleanup_try refused filePath s =
     (case (if existsSync s filePath then unlinkSync refused filePath s else Inr s) of
        Inl err \<Rightarrow> Inl err
      | Inr s1 \<Rightarrow> Inr (s1\<lparr>audioCleanupQueue := (audioCleanupQueue s1)(filePath := None)\<rparr>))"

text \<open>The callback: its \<^verbatim>\<open>catch\<close> block only logs.\<close>

definition cleanup_callback :: "error option \<Rightarrow> jsstring \<Rightarrow> server \<Rightarrow> server" where
  "cleanup_callback refused filePath s =
     (case cleanup_try refused filePath s of Inr s1 \<Rightarrow> s1 | Inl err \<Rightarrow> s)"

definition scheduleAudioCleanup :: "jsstring \<Rightarrow> nat \<Rightarrow> server \<Rightarrow> server" where
  "scheduleAudioCleanup filePath delayMs s =
     (let timeoutId = next_timer s
      in s\<lparr>timers := (timers s)(timeoutId \<mapsto> (filePath, delayMs)),
           next_timer := Suc timeoutId,
           audioCleanupQueue := (audioCleanupQueue s)(filePath \<mapsto> timeoutId)\<rparr>)"

text \<open>A pending timer fires once: it leaves the timer table and runs its callback.\<close>

definition timer_fires :: "error option \<Rightarrow> nat \<Rightarrow> server \<Rightarrow> server" where
  "timer_fires refused t s =
     (case timers s t of
        None \<Rightarrow> s
      | Some (filePath, delayMs) \<Rightarrow>
          cleanup_callback refused filePath (s\<lparr>timers := (timers s)(t := None)\<rparr>))"

section \<open>Responses\<close>

record gather_options =
  input :: jsstring
  action :: jsstring
  speechTimeout :: jsstring
  gather_language :: jsstring
  enhanced :: bool

text \<open>
  A TwiML document is the sequence of calls made on its builder: \<^verbatim>\<open>say\<close>,
  \<^verbatim>\<open>play\<close>, \<^verbatim>\<open>hangup\<close>, and \<^verbatim>\<open>gather\<close> with the calls made on the gather
  it returns. The builder raises nothing.
\<close>

datatype verb = Say jsval | Play jsstring | Hangup | Gather gather_options "verb list"

text \<open>
  What a handler sends: the TwiML document, a bare status, the JSON of the chat endpoint,
  or its error body \<^verbatim>\<open>{error, details: error.message}\<close> under a status.
\<close>

datatype http_response =
    TwiML "verb list"
  | SendStatus nat
  | ChatJson (json_detectedLanguage: jsstring) (json_response: jsval) (json_audioUrl: jsval)
  | ChatError nat jsstring error

text \<open>
  The result of a handler: the state it leaves, what it sends, and the requests it
  passed to \<^verbatim>\<open>openai.chat.completions.create\<close>, in order.
\<close>

record outcome =
  state :: server
  reply :: http_response
  sent :: "chat_request list"

definition gather :: "config \<Rightarrow> jsval \<Rightarrow> jsstring \<Rightarrow> gather_options" where
  "gather cfg callSid lang =
     \<lparr>input = js ''speech'',
      action = js ''/handle-speech?callSid='' @ to_string callSid,
      speechTimeout = twilio_speechTimeout cfg,
      gather_language = lang,
      enhanced = True\<rparr>"

section \<open>Phone channel\<close>

definition system_entry :: "config \<Rightarrow> chat_message" where
  "system_entry cfg = \<lparr>role = js ''system'', content = Str (systemPrompt cfg), metadata = NoMetadata\<rparr>"

definition twilio_voice :: "config \<Rightarrow> jsval \<Rightarrow> server \<Rightarrow> outcome" where
  "twilio_voice cfg callSid s =
     \<lparr>state = s\<lparr>conversationHistory := (conversationHistory s)(callSid \<mapsto> [system_entry cfg])\<rparr>,
      reply = TwiML
        [Gather (gather cfg callSid (twilio_language cfg))
           [Say (Str (js ''This is the test call for you, You can speak now the assistant will respond accordingly.''))],
         Hangup],
      sent = []\<rparr>"

definition call_status :: "jsval \<Rightarrow> jsval \<Rightarrow> server \<Rightarrow> outcome" where
  "call_status callSid callStatus s =
     \<lparr>state =
        (if callStatus = Str (js ''completed'') \<or> callStatus = Str (js ''failed'')
            \<or> callStatus = Str (js ''busy'') \<or> callStatus = Str (js ''no-answer'')
         then (if conversationHistory s callSid \<noteq> None
               then s\<lparr>conversationHistory := (conversationHistory s)(callSid := None)\<rparr>
               else s)
         else s),
      reply = SendStatus 200,
      sent = []\<rparr>"

text \<open>The text appended to the persona prompt for one turn of a call.\<close>

definition phone_instruction :: "jsstring \<Rightarrow> jsstring" where
  "phone_instruction languageName =
     js ''\<newline>\<newline>CRITICAL LANGUAGE INSTRUCTION:\<newline>The user is speaking in '' @ languageName
     @ js ''. You MUST respond ONLY in '' @ languageName
     @ js ''.\<newline>- Write your ENTIRE response in '' @ languageName
     @ js '' language\<newline>- For Indian languages, you can use Roman script (transliteration) or native script\<newline>- Do NOT use English at all unless the user is speaking English\<newline>- Do NOT mix languages\<newline>- Keep responses concise (under 30 words) for phone calls\<newline>\<newline>This is MANDATORY. Respond in ''
     @ languageName @ js '' ONLY.''"

definition messagesWithLanguage ::
  "config \<Rightarrow> jsstring \<Rightarrow> chat_message list \<Rightarrow> jsval \<Rightarrow> chat_message list" where
  "messagesWithLanguage cfg languageName history correctedMessage =
     [\<lparr>role = js ''system'',
       content = Str (systemPrompt cfg @ phone_instruction languageName),
       metadata = NoMetadata\<rparr>]
     @ drop 1 history
     @ [\<lparr>role = js ''user'', content = correctedMessage, metadata = NoMetadata\<rparr>]"

definition sarvam_configured :: "env \<Rightarrow> bool" where
  "sarvam_configured e =
     (truthy (SARVAM_API_KEY e) \<and> SARVAM_API_KEY e \<noteq> Str (js ''your_sarvam_api_key_here''))"

definition tts_body :: "config \<Rightarrow> jsval \<Rightarrow> jsstring \<Rightarrow> tts_request" where
  "tts_body cfg text detectedLanguage =
     \<lparr>inputs = [text],
      target_language_code = getSarvamLanguageCode detectedLanguage,
      tts_speaker = speaker (voiceConfig cfg),
      tts_model = voice_model (voiceConfig cfg),
      tts_pitch = pitch (voiceConfig cfg),
      tts_pace = pace (voiceConfig cfg),
      tts_loudness = loudness (voiceConfig cfg),
      enable_preprocessing = True,
      speech_sample_rate = 22050\<rparr>"

text \<open>\<^verbatim>\<open>sarvamResponse.data.audios[0]\<close>: a TypeError when \<^verbatim>\<open>audios\<close> is absent.\<close>

definition first_audio :: "tts_response \<Rightarrow> error + jsval" where
  "first_audio r =
     (case audios r of
        None \<Rightarrow> Inl TypeError
      | Some [] \<Rightarrow> Inr Undefined
      | Some (a # _) \<Rightarrow> Inr a)"

definition audioFilePath :: "config \<Rightarrow> jsstring \<Rightarrow> jsstring" where
  "audioFilePath cfg audioFileName = dirname cfg @ js ''/public/audio/'' @ audioFileName"

text \<open>The \<^verbatim>\<open>try\<close> block of \<^verbatim>\<open>handleSarvamAIResponse\<close>.\<close>

definition sarvam_try ::
  "env \<Rightarrow> config \<Rightarrow> verb list \<Rightarrow> jsval \<Rightarrow> jsval \<Rightarrow> jsstring \<Rightarrow> server
     \<Rightarrow> error + verb list \<times> server" where
  "sarvam_try e cfg twiml text callSid detectedLanguage s =
     (case axios_post e (tts_body cfg text detectedLanguage) of
        Inl err \<Rightarrow> Inl err
      | Inr sarvamResponse \<Rightarrow>
          (case first_audio sarvamResponse of
             Inl err \<Rightarrow> Inl err
           | Inr audioBase64 \<Rightarrow>
               if \<not> truthy audioBase64 then Inl NoAudioData
               else
                 (let audioFileName = uuidv4 e @ js ''.wav'';
                      path = audioFilePath cfg audioFileName
                  in case writeFileSync e path (to_string audioBase64) s of
                       Inl err \<Rightarrow> Inl err
                     | Inr s1 \<Rightarrow>
                         (let audioUrl = to_string (PUBLIC_URL e) @ js ''/audio/'' @ audioFileName
                          in Inr (twiml @ [Gather (gather cfg callSid (voice_language (voiceConfig cfg)))
                                             [Play audioUrl]],
                                  scheduleAudioCleanup path 30000 s1)))))"

text \<open>The function: its \<^verbatim>\<open>catch\<close> block says the text with the native voice.\<close>

definition handleSarvamAIResponse ::
  "env \<Rightarrow> config \<Rightarrow> verb list \<Rightarrow> jsval \<Rightarrow> jsval \<Rightarrow> jsstring \<Rightarrow> server \<Rightarrow> verb list \<times> server" where
  "handleSarvamAIResponse e cfg twiml text callSid detectedLanguage s =
     (case sarvam_try e cfg twiml text callSid detectedLanguage s of
        Inr r \<Rightarrow> r
      | Inl err \<Rightarrow> (twiml @ [Gather (gather cfg callSid (twilio_language cfg)) [Say text]], s))"

definition turn_request :: "config \<Rightarrow> correction \<Rightarrow> chat_message list \<Rightarrow> chat_request" where
  "turn_request cfg c history =
     \<lparr>model = openAI_model cfg,
      messages = messagesWithLanguage cfg (prop_text (languageName_of (language c))) history
                   (correctedText c),
      temperature = openAI_temperature cfg,
      max_tokens = openAI_maxTokens cfg\<rparr>"

text \<open>
  The \<^verbatim>\<open>try\<close> block of \<^verbatim>\<open>/handle-speech\<close>, for the history found under the call
  identifier; with its result, the requests made to the completion provider.
\<close>

definition handle_speech_try ::
  "env \<Rightarrow> config \<Rightarrow> jsval \<Rightarrow> jsval \<Rightarrow> chat_message list \<Rightarrow> server
     \<Rightarrow> (error + verb list \<times> server) \<times> chat_request list" where
  "handle_speech_try e cfg callSid userSpeech history s =
     (case detectLanguageAndCorrect e cfg userSpeech of
        Inl err \<Rightarrow> (Inl err, [correction_request cfg userSpeech])
      | Inr c \<Rightarrow>
          (let detectedLanguage = language c;
               correctedMessage = correctedText c;
               req = turn_request cfg c history;
               asked = [correction_request cfg userSpeech, req]
           in case openai_create e req of
                Inl err \<Rightarrow> (Inl err, asked)
              | Inr completion \<Rightarrow>
                  (case first_content completion of
                     Inl err \<Rightarrow> (Inl err, asked)
                   | Inr gptResponse \<Rightarrow>
                       (let history' = history
                              @ [\<lparr>role = js ''user'', content = correctedMessage,
                                  metadata = UserMetadata detectedLanguage userSpeech\<rparr>]
                              @ [\<lparr>role = js ''assistant'', content = gptResponse,
                                  metadata = AssistantMetadata detectedLanguage\<rparr>];
                            s1 = s\<lparr>conversationHistory := (conversationHistory s)(callSid \<mapsto> history')\<rparr>
                        in if sarvam_configured e
                           then (Inr (handleSarvamAIResponse e cfg [] gptResponse callSid detectedLanguage s1),
                                 asked)
                           else (Inr ([Gather (gather cfg callSid (twilio_language cfg)) [Say gptResponse]], s1),
                                 asked)))))"

definition handle_speech :: "env \<Rightarrow> config \<Rightarrow> jsval \<Rightarrow> jsval \<Rightarrow> server \<Rightarrow> outcome" where
  "handle_speech e cfg callSid userSpeech s =
     (if truthy userSpeech \<and> truthy callSid \<and> conversationHistory s callSid \<noteq> None
      then
        (case handle_speech_try e cfg callSid userSpeech (the (conversationHistory s callSid)) s of
           (Inr (twiml, s1), asked) \<Rightarrow> \<lparr>state = s1, reply = TwiML twiml, sent = asked\<rparr>
         | (Inl err, asked) \<Rightarrow>
             \<lparr>state = s,
              reply = TwiML
                [Gather (gather cfg callSid (twilio_language cfg))
                   [Say (Str (js ''I seem to be having some trouble. Please try speaking again.''))],
                 Say (Str (js ''Thank you for calling. Goodbye.'')),
                 Hangup],
              sent = asked\<rparr>)
      else
        \<lparr>state = s,
         reply = TwiML
           [Gather (gather cfg callSid (twilio_language cfg))
              [Say (Str (js ''I did not catch that. Please speak clearly after the tone.''))],
            Say (Str (js ''I could not hear you. Please call back. Goodbye.'')),
            Hangup],
         sent = []\<rparr>)"

section \<open>Web channel\<close>

text \<open>
  A request that reaches the handler of \<^verbatim>\<open>/chat\<close>: the two fields read from the JSON
  body (a history that is absent cannot be spread into the message array) and the header
  \<^verbatim>\<open>x-session-id\<close>. The log lines of the handler are part of its result.
\<close>

record chat_req =
  message :: jsval
  clientHistory :: "chat_message list option"
  x_session_id :: jsval

datatype log_entry = Info jsstring | Error jsstring error

record chat_outcome = outcome +
  logged :: "log_entry list"

text \<open>A number inside a template literal: its decimal digits.\<close>

fun show_nat :: "nat \<Rightarrow> jsstring" where
  "show_nat n =
     (if n < 10 then [of_nat (48 + n)]
      else show_nat (n div 10) @ [of_nat (48 + n mod 10)])"

declare show_nat.simps [simp del]

definition sessionId_of :: "env \<Rightarrow> jsval \<Rightarrow> jsstring" where
  "sessionId_of e header =
     (if truthy header then to_string header else js ''web_'' @ show_nat (Date_now e))"

definition greeting :: jsstring where
  "greeting = js ''Hello! I am your assistant at the Skillora Design Academy. How can I help you today?''"

definition web_instruction :: "jsstring \<Rightarrow> jsstring" where
  "web_instruction languageName =
     js ''\<newline>\<newline>CRITICAL LANGUAGE INSTRUCTION:\<newline>The user is speaking in '' @ languageName
     @ js ''. You MUST respond ONLY in '' @ languageName
     @ js ''.\<newline>- Write your ENTIRE response in '' @ languageName
     @ js '' language using the appropriate script (Devanagari for Hindi/Marathi, Tamil script for Tamil, etc.)\<newline>- Do NOT use English at all\<newline>- Do NOT mix languages\<newline>- If you don''
     @ [0x27] @ js ''t know how to say something in '' @ languageName
     @ js '', still try your best to use '' @ languageName
     @ js ''\<newline>\<newline>This is MANDATORY. Respond in '' @ languageName @ js '' ONLY.''"

definition chat_request_of :: "config \<Rightarrow> correction \<Rightarrow> chat_message list \<Rightarrow> chat_request" where
  "chat_request_of cfg c history =
     \<lparr>model = openAI_model cfg,
      messages =
        [\<lparr>role = js ''system'',
          content = Str (systemPrompt cfg @ web_instruction (prop_text (languageName_of (language c)))),
          metadata = NoMetadata\<rparr>]
        @ history
        @ [\<lparr>role = js ''user'', content = correctedText c, metadata = NoMetadata\<rparr>],
      temperature = openAI_temperature cfg,
      max_tokens = openAI_maxTokens cfg\<rparr>"

text \<open>
  The first half of the \<^verbatim>\<open>try\<close> block: the answer text and the language, with the
  log lines written and the requests made to the completion provider.
\<close>

definition chat_answer ::
  "env \<Rightarrow> config \<Rightarrow> jsstring \<Rightarrow> chat_req
     \<Rightarrow> (error + jsval \<times> jsstring \<times> log_entry list) \<times> chat_request list" where
  "chat_answer e cfg sessionId req =
     (if message req = Str (js ''__GREETING__'')
      then (Inr (Str greeting, js ''en'',
                 [Info (js ''['' @ sessionId @ js ''] Sending greeting'')]), [])
      else
        (case detectLanguageAndCorrect e cfg (message req) of
           Inl err \<Rightarrow> (Inl err, [correction_request cfg (message req)])
         | Inr c \<Rightarrow>
             (case clientHistory req of
                None \<Rightarrow> (Inl TypeError, [correction_request cfg (message req)])
              | Some history \<Rightarrow>
                  (let req2 = chat_request_of cfg c history;
                       asked = [correction_request cfg (message req), req2]
                   in case openai_create e req2 of
                        Inl err \<Rightarrow> (Inl err, asked)
                      | Inr completion \<Rightarrow>
                          (case first_content completion of
                             Inl err \<Rightarrow> (Inl err, asked)
                           | Inr gptResponse \<Rightarrow>
                               (Inr (gptResponse, language c,
                                     [Info (js ''['' @ sessionId @ js ''] GPT response in ''
                                            @ prop_text (languageName_of (language c))
                                            @ js '': \"'' @ to_string gptResponse @ js ''\"'')]),
                                asked))))))"

text \<open>The inner \<^verbatim>\<open>try\<close> block, which synthesises the answer.\<close>

definition chat_audio_try ::
  "env \<Rightarrow> config \<Rightarrow> jsstring \<Rightarrow> jsval \<Rightarrow> jsstring \<Rightarrow> server
     \<Rightarrow> error + jsval \<times> server \<times> log_entry list" where
  "chat_audio_try e cfg sessionId gptResponse detectedLanguage s =
     (case axios_post e (tts_body cfg gptResponse detectedLanguage) of
        Inl err \<Rightarrow> Inl err
      | Inr sarvamResponse \<Rightarrow>
          (case first_audio sarvamResponse of
             Inl err \<Rightarrow> Inl err
           | Inr audioBase64 \<Rightarrow>
               if truthy audioBase64
               then
                 (let audioFileName = uuidv4 e @ js ''.wav'';
                      path = audioFilePath cfg audioFileName
                  in case writeFileSync e path (to_string audioBase64) s of
                       Inl err \<Rightarrow> Inl err
                     | Inr s1 \<Rightarrow>
                         Inr (Str (js ''/audio/'' @ audioFileName),
                              scheduleAudioCleanup path 60000 s1,
                              [Info (js ''['' @ sessionId @ js ''] Audio saved: '' @ audioFileName)]))
               else Inr (Null, s, [])))"

text \<open>The audio URL starts as \<^verbatim>\<open>null\<close> and stays so unless a file was written.\<close>

definition chat_audio ::
  "env \<Rightarrow> config \<Rightarrow> jsstring \<Rightarrow> jsval \<Rightarrow> jsstring \<Rightarrow> server \<Rightarrow> jsval \<times> server \<times> log_entry list" where
  "chat_audio e cfg sessionId gptResponse detectedLanguage s =
     (if sarvam_configured e
      then (case chat_audio_try e cfg sessionId gptResponse detectedLanguage s of
              Inr r \<Rightarrow> r
            | Inl err \<Rightarrow> (Null, s, [Error (js ''[Sarvam AI Error for web chat]:'') err]))
      else (Null, s, []))"

definition chat :: "env \<Rightarrow> config \<Rightarrow> chat_req \<Rightarrow> server \<Rightarrow> chat_outcome" where
  "chat e cfg req s =
     (let sessionId = sessionId_of e (x_session_id req);
          line = Info (js ''['' @ sessionId @ js ''] Web chat message: \"''
                       @ to_string (message req) @ js ''\"'')
      in case chat_answer e cfg sessionId req of
           (Inl err, asked) \<Rightarrow>
             \<lparr>state = s,
              reply = ChatError 500 (js ''Failed to process message'') err,
              sent = asked,
              logged = [line, Error (js ''[Web Chat Error]:'') err]\<rparr>
         | (Inr (gptResponse, detectedLanguage, lines), asked) \<Rightarrow>
             (case chat_audio e cfg sessionId gptResponse detectedLanguage s of
                (audioUrl, s1, lines') \<Rightarrow>
                  \<lparr>state = s1,
                   reply = ChatJson detectedLanguage gptResponse audioUrl,
                   sent = asked,
                   logged = line # lines @ lines'\<rparr>))"

section \<open>Runs of the server\<close>

text \<open>
  What can happen to the server: the three webhooks of a call, a chat request, a timer
  that fires. A request comes with the behaviour of its collaborators, a timer with that
  of the file system.
\<close>

datatype event =
    CallStart jsval
  | SpeechResult env jsval jsval
  | CallStatus jsval jsval
  | WebChat env chat_req
  | TimerFires nat "error option"

fun step :: "config \<Rightarrow> server \<Rightarrow> event \<Rightarrow> server" where
  "step cfg s (CallStart callSid) = state (twilio_voice cfg callSid s)"
| "step cfg s (SpeechResult e callSid userSpeech) = state (handle_speech e cfg callSid userSpeech s)"
| "step cfg s (CallStatus callSid callStatus) = state (call_status callSid callStatus s)"
| "step cfg s (WebChat e req) = state (chat e cfg req s)"
| "step cfg s (TimerFires t refused) = timer_fires refused t s"

definition run :: "config \<Rightarrow> event list \<Rightarrow> server \<Rightarrow> server" where
  "run cfg evs s = foldl (step cfg) s evs"

text \<open>The shape of a stored transcript, and the property that no role repeats.\<close>

fun alternates :: "chat_message list \<Rightarrow> bool" where
  "alternates [] = True"
| "alternates [u] = False"
| "alternates (u # a # rest) =
     (role u = js ''user'' \<and> role a = js ''assistant'' \<and> alternates rest)"

definition well_formed :: "config \<Rightarrow> chat_message list \<Rightarrow> bool" where
  "well_formed cfg h = (case h of [] \<Rightarrow> False | m # rest \<Rightarrow> m = system_entry cfg \<and> alternates rest)"

fun no_repeated_role :: "chat_message list \<Rightarrow> bool" where
  "no_repeated_role (x # y # rest) = (role x \<noteq> role y \<and> no_repeated_role (y # rest))"
| "no_repeated_role _ = True"

text \<open>Every stored transcript has that shape.\<close>

definition transcripts_well_formed :: "config \<Rightarrow> server \<Rightarrow> bool" where
  "transcripts_well_formed cfg s =
     (\<forall>callSid h. conversationHistory s callSid = Some h \<longrightarrow> well_formed cfg h)"

text \<open>
  The result of \<^verbatim>\<open>/chat\<close> without its log lines, for a given session identifier: a
  device of the proof that the identifier reaches the log lines only.
\<close>

definition chat_result :: "env \<Rightarrow> config \<Rightarrow> jsstring \<Rightarrow> chat_req \<Rightarrow> server \<Rightarrow> outcome" where
  "chat_result e cfg sessionId req s =
     (case chat_answer e cfg sessionId req of
        (Inl err, asked) \<Rightarrow>
          \<lparr>state = s, reply = ChatError 500 (js ''Failed to process message'') err, sent = asked\<rparr>
      | (Inr (gptResponse, detectedLanguage, lines), asked) \<Rightarrow>
          (case chat_audio e cfg sessionId gptResponse detectedLanguage s of
             (audioUrl, s1, lines') \<Rightarrow>
               \<lparr>state = s1, reply = ChatJson detectedLanguage gptResponse audioUrl, sent = asked\<rparr>))"

section \<open>Example environments\<close>

text \<open>Concrete collaborators, configuration and states, for the examples below.\<close>

definition provider_down :: "chat_request \<Rightarrow> error + completion" where
  "provider_down req = Inl (ProviderFailure (js ''connect ETIMEDOUT''))"

definition provider_says :: "string \<Rightarrow> chat_request \<Rightarrow> error + completion" where
  "provider_says txt req = Inr (Completion [Str (js txt)])"

definition provider_script :: "string \<Rightarrow> string \<Rightarrow> chat_request \<Rightarrow> error + completion" where
  "provider_script correction answer req =
     (if model req = js ''gpt-4o-mini'' then Inr (Completion [Str (js correction)])
      else Inr (Completion [Str (js answer)]))"

definition provider_quota :: "string \<Rightarrow> chat_request \<Rightarrow> error + completion" where
  "provider_quota correction req =
     (if model req = js ''gpt-4o-mini'' then Inr (Completion [Str (js correction)])
      else Inl (ProviderFailure (js ''429 quota exceeded'')))"

definition tts_down :: "tts_request \<Rightarrow> error + tts_response" where
  "tts_down req = Inl (ProviderFailure (js ''timeout of 30000ms exceeded''))"

definition tts_says :: "jsval list \<Rightarrow> tts_request \<Rightarrow> error + tts_response" where
  "tts_says payloads req = Inr (TtsResponse (Some payloads))"

definition example_env ::
  "(chat_request \<Rightarrow> error + completion) \<Rightarrow> (tts_request \<Rightarrow> error + tts_response) \<Rightarrow> jsval \<Rightarrow> env" where
  "example_env p t key =
     \<lparr>openai_create = p, axios_post = t, uuidv4 = js ''0b1f'', Date_now = 1700,
      SARVAM_API_KEY = key, PUBLIC_URL = Str (js ''https://example.test''),
      writeFile_fails = None\<rparr>"

definition env_with :: "(chat_request \<Rightarrow> error + completion) \<Rightarrow> env" where
  "env_with p = example_env p tts_down Undefined"

definition cfg0 :: config where
  "cfg0 =
     \<lparr>systemPrompt = js ''You are Skylar.'',
      correctionPrompt = js ''You are a Course Recommendation Expert.'',
      voiceConfig = \<lparr>voice_model = js ''bulbul:v2'', speaker = js ''anushka'',
                     voice_language = js ''en-IN'', pitch = 0, pace = 1, loudness = 3 / 2\<rparr>,
      openAI_model = js ''gpt-4o'', openAI_temperature = 7 / 10, openAI_maxTokens = 100,
      twilio_language = js ''en-IN, hi-IN'', twilio_speechTimeout = js ''auto'',
      dirname = js ''/srv/app''\<rparr>"

definition ringing :: server where
  "ringing = state (twilio_voice cfg0 (Str (js ''CA42'')) (initial_server Map.empty))"

definition greeting_request :: chat_req where
  "greeting_request =
     \<lparr>message = Str (js ''__GREETING__''), clientHistory = Some [], x_session_id = Undefined\<rparr>"

definition drawing_env :: env where
  "drawing_env =
     example_env
       (provider_script ''LANGUAGE: en\<newline>CORRECTED: I like drawing.''
          ''Our Graphic Design course would suit you.'')
       tts_down Undefined"

definition quota_env :: env where
  "quota_env =
     example_env (provider_quota ''LANGUAGE: en\<newline>CORRECTED: I like drawing.'') tts_down Undefined"

definition silent_tts_env :: env where
  "silent_tts_env =
     example_env
       (provider_script ''LANGUAGE: en\<newline>CORRECTED: I like drawing.''
          ''Our Graphic Design course would suit you.'')
       (tts_says []) (Str (js ''sk_live''))"

definition voiced_env :: env where
  "voiced_env = example_env provider_down (tts_says [Str (js ''UklGRg=='')]) (Str (js ''sk_live''))"

definition drawing_correction :: correction where
  "drawing_correction = \<lparr>language = js ''en'', correctedText = Str (js ''I like drawing.'')\<rparr>"

definition drawing_request :: chat_request where
  "drawing_request =
     \<lparr>model = js ''gpt-4o'',
      messages =
        [\<lparr>role = js ''system'',
          content = Str (js ''You are Skylar.''
                     @ js ''\<newline>\<newline>CRITICAL LANGUAGE INSTRUCTION:\<newline>The user is speaking in ''
                     @ js ''English'' @ js ''. You MUST respond ONLY in '' @ js ''English''
                     @ js ''.\<newline>- Write your ENTIRE response in '' @ js ''English''
                     @ js '' language\<newline>- For Indian languages, you can use Roman script (transliteration) or native script\<newline>- Do NOT use English at all unless the user is speaking English\<newline>- Do NOT mix languages\<newline>- Keep responses concise (under 30 words) for phone calls\<newline>\<newline>This is MANDATORY. Respond in ''
                     @ js ''English'' @ js '' ONLY.''),
          metadata = NoMetadata\<rparr>,
         \<lparr>role = js ''user'', content = Str (js ''I like drawing.''), metadata = NoMetadata\<rparr>],
      temperature = 7 / 10,
      max_tokens = 100\<rparr>"


section \<open>Facts about the examples\<close>

lemma drawing_detected:
  "detectLanguageAndCorrect drawing_env cfg0 (Str (js ''I like drawing'')) = Inr drawing_correction"
  unfolding drawing_env_def drawing_correction_def by code_simp

lemma quota_detected:
  "detectLanguageAndCorrect quota_env cfg0 (Str (js ''I like drawing'')) = Inr drawing_correction"
  unfolding quota_env_def drawing_correction_def by code_simp

lemma silent_detected:
  "detectLanguageAndCorrect silent_tts_env cfg0 (Str (js ''I like drawing'')) = Inr drawing_correction"
  unfolding silent_tts_env_def drawing_correction_def by code_simp

lemma ringing_history: "conversationHistory ringing (Str (js ''CA42'')) = Some [system_entry cfg0]"
  by (simp add: ringing_def twilio_voice_def)

lemma drawing_answered:
  "openai_create drawing_env (turn_request cfg0 drawing_correction [system_entry cfg0])
     = Inr (Completion (Str (js ''Our Graphic Design course would suit you.'') # []))"
  by (simp add: drawing_env_def example_env_def provider_script_def turn_request_def cfg0_def js_def)

lemma silent_answered:
  "openai_create silent_tts_env (turn_request cfg0 drawing_correction [system_entry cfg0])
     = Inr (Completion (Str (js ''Our Graphic Design course would suit you.'') # []))"
  by (simp add: silent_tts_env_def example_env_def provider_script_def turn_request_def cfg0_def
      js_def)

lemma quota_refused:
  "openai_create quota_env (turn_request cfg0 drawing_correction [system_entry cfg0])
     = Inl (ProviderFailure (js ''429 quota exceeded''))"
  by (simp add: quota_env_def example_env_def provider_quota_def turn_request_def cfg0_def js_def)

lemma truthy_examples: "truthy (Str (js ''I like drawing''))" "truthy (Str (js ''CA42''))"
  by (simp_all add: js_def)

lemma drawing_turn:
  "conversationHistory
     (state (handle_speech drawing_env cfg0 (Str (js ''CA42'')) (Str (js ''I like drawing'')) ringing))
     (Str (js ''CA42''))
   = Some [system_entry cfg0,
           \<lparr>role = js ''user'', content = Str (js ''I like drawing.''),
             metadata = UserMetadata (js ''en'') (Str (js ''I like drawing''))\<rparr>,
           \<lparr>role = js ''assistant'', content = Str (js ''Our Graphic Design course would suit you.''),
             metadata = AssistantMetadata (js ''en'')\<rparr>]"
proof -
  have n: "\<not> sarvam_configured drawing_env"
    by (simp add: sarvam_configured_def drawing_env_def example_env_def)
  show ?thesis
    using truthy_examples ringing_history n
    by (simp add: handle_speech_def handle_speech_try_def drawing_detected drawing_answered
        Let_def first_content_def) (simp add: drawing_correction_def)
qed

section \<open>Properties of the language correction\<close>

lemma detectLanguageAndCorrect_cases:
  "detectLanguageAndCorrect e cfg text =
     Inr (case detect_try e cfg text of
            Inr r \<Rightarrow> r
          | Inl err \<Rightarrow> \<lparr>language = js ''en'', correctedText = text\<rparr>)"
  by (simp add: detectLanguageAndCorrect_def split: sum.splits)

text \<open>
  Claim C1. \<^verbatim>\<open>detectLanguageAndCorrect\<close> never hands an error to its caller. When the
  provider call fails, or its answer has no first choice or no text in it, the result is
  the utterance as it came with the language \<^verbatim>\<open>'en'\<close>. When the answer is a text in
  which the LANGUAGE pattern does not match, the language is \<^verbatim>\<open>'en'\<close>; when the
  CORRECTED pattern does not match, the corrected text is the utterance as it came.
\<close>

theorem detectLanguageAndCorrect_fail_soft:
  "(\<exists>r. detectLanguageAndCorrect e cfg text = Inr r)
   \<and> (openai_create e (correction_request cfg text) = Inl err \<longrightarrow>
        detectLanguageAndCorrect e cfg text = Inr \<lparr>language = js ''en'', correctedText = text\<rparr>)
   \<and> (openai_create e (correction_request cfg text) = Inr c
        \<and> (first_content c = Inl TypeError \<or> first_content c = Inr Null
             \<or> first_content c = Inr Undefined) \<longrightarrow>
        detectLanguageAndCorrect e cfg text = Inr \<lparr>language = js ''en'', correctedText = text\<rparr>)
   \<and> (openai_create e (correction_request cfg text) = Inr (Completion (Str answer # others)) \<longrightarrow>
        (\<exists>r. detectLanguageAndCorrect e cfg text = Inr r
           \<and> (langMatch (trim answer) = None \<longrightarrow> language r = js ''en'')
           \<and> (correctedMatch (trim answer) = None \<longrightarrow> correctedText r = text)))"
proof (intro conjI impI)
  show "\<exists>r. detectLanguageAndCorrect e cfg text = Inr r"
    by (simp add: detectLanguageAndCorrect_cases)
next
  assume "openai_create e (correction_request cfg text) = Inl err"
  then show "detectLanguageAndCorrect e cfg text = Inr \<lparr>language = js ''en'', correctedText = text\<rparr>"
    by (simp add: detectLanguageAndCorrect_def detect_try_def)
next
  assume "openai_create e (correction_request cfg text) = Inr c
            \<and> (first_content c = Inl TypeError \<or> first_content c = Inr Null
                 \<or> first_content c = Inr Undefined)"
  then show "detectLanguageAndCorrect e cfg text = Inr \<lparr>language = js ''en'', correctedText = text\<rparr>"
    by (auto simp: detectLanguageAndCorrect_def detect_try_def)
next
  assume "openai_create e (correction_request cfg text) = Inr (Completion (Str answer # others))"
  then show "\<exists>r. detectLanguageAndCorrect e cfg text = Inr r
           \<and> (langMatch (trim answer) = None \<longrightarrow> language r = js ''en'')
           \<and> (correctedMatch (trim answer) = None \<longrightarrow> correctedText r = text)"
    by (simp add: detectLanguageAndCorrect_def detect_try_def first_content_def Let_def
        split: option.splits)
qed

theorem detectLanguageAndCorrect_fail_soft_witness:
  "detectLanguageAndCorrect (env_with provider_down) cfg0 (Str (js ''namste'')) =
     Inr \<lparr>language = js ''en'', correctedText = Str (js ''namste'')\<rparr>
   \<and> detectLanguageAndCorrect (env_with (\<lambda>req. Inr (Completion []))) cfg0 (Str (js ''namste'')) =
     Inr \<lparr>language = js ''en'', correctedText = Str (js ''namste'')\<rparr>
   \<and> langMatch (trim (js ''INTEREST_DETECTED: drawing'')) = None
   \<and> correctedMatch (trim (js ''INTEREST_DETECTED: drawing'')) = None
   \<and> (\<exists>r. detectLanguageAndCorrect (env_with (provider_says ''INTEREST_DETECTED: drawing'')) cfg0
              (Str (js ''namste'')) = Inr r
          \<and> language r = js ''en'' \<and> correctedText r = Str (js ''namste''))"
proof -
  let ?t = "Str (js ''namste'')"
  have a: "openai_create (env_with provider_down) (correction_request cfg0 ?t)
             = Inl (ProviderFailure (js ''connect ETIMEDOUT''))"
    by (simp add: env_with_def example_env_def provider_down_def)
  have b: "openai_create (env_with (\<lambda>req. Inr (Completion []))) (correction_request cfg0 ?t)
             = Inr (Completion [])
           \<and> (first_content (Completion []) = Inl TypeError
                \<or> first_content (Completion []) = Inr Null
                \<or> first_content (Completion []) = Inr Undefined)"
    by (simp add: env_with_def example_env_def first_content_def)
  have c: "openai_create (env_with (provider_says ''INTEREST_DETECTED: drawing''))
             (correction_request cfg0 ?t)
             = Inr (Completion (Str (js ''INTEREST_DETECTED: drawing'') # []))"
    by (simp add: env_with_def example_env_def provider_says_def)
  have l: "langMatch (trim (js ''INTEREST_DETECTED: drawing'')) = None" by code_simp
  have m: "correctedMatch (trim (js ''INTEREST_DETECTED: drawing'')) = None" by code_simp
  show ?thesis
    using detectLanguageAndCorrect_fail_soft [of "env_with provider_down" cfg0 ?t
        "ProviderFailure (js ''connect ETIMEDOUT'')" "Completion []" "js ''x''" "[]"] a
      detectLanguageAndCorrect_fail_soft [of "env_with (\<lambda>req. Inr (Completion []))" cfg0 ?t
        "TypeError" "Completion []" "js ''x''" "[]"] b
      detectLanguageAndCorrect_fail_soft [of "env_with (provider_says ''INTEREST_DETECTED: drawing'')"
        cfg0 ?t "TypeError" "Completion []" "js ''INTEREST_DETECTED: drawing''" "[]"] c l m
    by blast
qed

section \<open>Properties of the locale table\<close>

lemma search_Some: "search f s = Some r \<Longrightarrow> \<exists>t. f t = Some r"
  by (induction s) (auto split: option.splits)

lemma match_spaces_Some: "match_spaces k s = Some r \<Longrightarrow> \<exists>t. k t = Some r"
  by (induction s) (auto split: option.splits if_splits)

lemma two_letters_Some: "two_letters t = Some r \<Longrightarrow> length r = 2 \<and> list_all is_letter r"
  by (auto simp: two_letters_def split: list.splits if_splits)

lemma langMatch_Some: "langMatch s = Some r \<Longrightarrow> length r = 2 \<and> list_all is_letter r"
proof -
  assume "langMatch s = Some r"
  then obtain t where "tag_pattern (js ''LANGUAGE:'') two_letters t = Some r"
    unfolding langMatch_def using search_Some by blast
  then obtain u where "two_letters u = Some r"
    using match_spaces_Some by (fastforce simp: tag_pattern_def split: option.splits)
  then show ?thesis by (rule two_letters_Some)
qed

lemma upper_plus_32:
  "0x41 \<le> c \<Longrightarrow> c \<le> 0x5A \<Longrightarrow> 0x61 \<le> c + 0x20 \<and> c + 0x20 \<le> (0x7A :: jschar)"
proof -
  assume "0x41 \<le> c" and "c \<le> 0x5A"
  then have 1: "65 \<le> unat c" and 2: "unat c \<le> 90" by (simp_all add: word_le_nat_alt)
  then have "unat (c + 0x20) = unat c + 32" by (simp add: unat_word_ariths)
  with 1 2 show ?thesis by (simp add: word_le_nat_alt)
qed

lemma lower_letter:
  "is_letter c \<Longrightarrow>
   0x61 \<le> (if 0x41 \<le> c \<and> c \<le> 0x5A then c + 0x20 else c)
   \<and> (if 0x41 \<le> c \<and> c \<le> 0x5A then c + 0x20 else c) \<le> 0x7A"
  using upper_plus_32 [of c] by (auto simp: is_letter_def)

lemma lower_letters:
  "list_all is_letter r \<Longrightarrow>
   list_all (\<lambda>c. 0x61 \<le> c \<and> c \<le> 0x7A) (toLowerCase r)"
  unfolding toLowerCase_def using lower_letter by (induction r) (simp_all split del: if_split)

lemma toLowerCase_code:
  "length r = 2 \<Longrightarrow> list_all is_letter r \<Longrightarrow> is_language_code (toLowerCase r)"
  using lower_letters [of r] by (simp add: is_language_code_def) (simp add: toLowerCase_def)

lemma detect_language_code:
  "detectLanguageAndCorrect e cfg utterance = Inr r \<Longrightarrow> is_language_code (language r)"
proof -
  have en: "is_language_code (js ''en'')"
    by (simp add: is_language_code_def js_def)
  assume "detectLanguageAndCorrect e cfg utterance = Inr r"
  then show ?thesis
    using en langMatch_Some toLowerCase_code
    by (auto simp: detectLanguageAndCorrect_def detect_try_def Let_def
        split: sum.splits option.splits jsval.splits)
qed

text \<open>
  Claim C4. For a language code that is a key of the ten-entry table,
  \<^verbatim>\<open>getSarvamLanguageCode\<close> returns the locale tag of the table; for a detected
  language code (two lower-case letters, which is all that the correction returns) that
  is not a key, it returns \<^verbatim>\<open>'en-IN'\<close>. The function is total: it raises nothing.
\<close>

theorem getSarvamLanguageCode_table:
  "(map_of languageMapping code = Some tag \<longrightarrow> getSarvamLanguageCode code = Own tag)
   \<and> (is_language_code code \<and> map_of languageMapping code = None \<longrightarrow>
        getSarvamLanguageCode code = Own (js ''en-IN''))
   \<and> (detectLanguageAndCorrect e cfg utterance = Inr r \<longrightarrow> is_language_code (language r))
   \<and> length languageMapping = 10"
proof (intro conjI impI)
  assume "map_of languageMapping code = Some tag"
  then show "getSarvamLanguageCode code = Own tag"
    by (auto simp: languageMapping_def getSarvamLanguageCode_def get_property_def or_default_def
        js_def split: if_splits)
next
  assume "is_language_code code \<and> map_of languageMapping code = None"
  then show "getSarvamLanguageCode code = Own (js ''en-IN'')"
    by (auto simp: getSarvamLanguageCode_def get_property_def or_default_def is_language_code_def
        object_prototype_keys_def js_def)
next
  assume "detectLanguageAndCorrect e cfg utterance = Inr r"
  then show "is_language_code (language r)" by (rule detect_language_code)
next
  show "length languageMapping = 10" by (simp add: languageMapping_def)
qed

theorem getSarvamLanguageCode_table_witness:
  "map_of languageMapping (js ''hi'') = Some (js ''hi-IN'')
   \<and> getSarvamLanguageCode (js ''hi'') = Own (js ''hi-IN'')
   \<and> is_language_code (js ''fr'') \<and> map_of languageMapping (js ''fr'') = None
   \<and> getSarvamLanguageCode (js ''fr'') = Own (js ''en-IN'')
   \<and> detectLanguageAndCorrect (env_with (provider_says ''LANGUAGE: FR'')) cfg0 (Str (js ''bonjour''))
       = Inr \<lparr>language = js ''fr'', correctedText = Str (js ''bonjour'')\<rparr>
   \<and> is_language_code (language \<lparr>language = js ''fr'', correctedText = Str (js ''bonjour'')\<rparr>)"
proof -
  have a: "map_of languageMapping (js ''hi'') = Some (js ''hi-IN'')"
    by (simp add: languageMapping_def js_def)
  have b: "is_language_code (js ''fr'') \<and> map_of languageMapping (js ''fr'') = None"
    by (simp add: languageMapping_def js_def is_language_code_def)
  have c: "detectLanguageAndCorrect (env_with (provider_says ''LANGUAGE: FR'')) cfg0 (Str (js ''bonjour''))
       = Inr \<lparr>language = js ''fr'', correctedText = Str (js ''bonjour'')\<rparr>"
    by code_simp
  show ?thesis
    using getSarvamLanguageCode_table [of "js ''hi''" "js ''hi-IN''" _ _ _ _] a
      getSarvamLanguageCode_table [of "js ''fr''" "js ''hi-IN''"
        "env_with (provider_says ''LANGUAGE: FR'')" cfg0 "Str (js ''bonjour'')"
        "\<lparr>language = js ''fr'', correctedText = Str (js ''bonjour'')\<rparr>"] b c
    by blast
qed

section \<open>Properties of the call-status webhook\<close>

text \<open>
  Claim C3. After a call-status event whose status is completed, failed, busy or
  no-answer, the session store has no entry under the call identifier, and a further
  event for the same identifier leaves the state as it is. Deleting a session that is not
  in the store changes nothing, no other session is touched, and the answer is always the
  status 200.
\<close>

theorem call_status_terminal:
  "(callStatus \<in> {Str (js ''completed''), Str (js ''failed''), Str (js ''busy''),
                   Str (js ''no-answer'')} \<longrightarrow>
      conversationHistory (state (call_status callSid callStatus s)) callSid = None
      \<and> state (call_status callSid callStatus' (state (call_status callSid callStatus s)))
          = state (call_status callSid callStatus s))
   \<and> (conversationHistory s callSid = None \<longrightarrow> state (call_status callSid callStatus s) = s)
   \<and> (other \<noteq> callSid \<longrightarrow>
        conversationHistory (state (call_status callSid callStatus s)) other
          = conversationHistory s other)
   \<and> reply (call_status callSid callStatus s) = SendStatus 200"
  by (auto simp: call_status_def)

theorem call_status_terminal_witness:
  "Str (js ''completed'') \<in> {Str (js ''completed''), Str (js ''failed''), Str (js ''busy''),
                   Str (js ''no-answer'')}
   \<and> conversationHistory ringing (Str (js ''CA42'')) = Some [system_entry cfg0]
   \<and> conversationHistory (state (call_status (Str (js ''CA42'')) (Str (js ''completed'')) ringing))
        (Str (js ''CA42'')) = None
   \<and> state (call_status (Str (js ''CA42'')) (Str (js ''completed''))
        (state (call_status (Str (js ''CA42'')) (Str (js ''completed'')) ringing)))
       = state (call_status (Str (js ''CA42'')) (Str (js ''completed'')) ringing)
   \<and> conversationHistory ringing (Str (js ''CA7'')) = None
   \<and> state (call_status (Str (js ''CA7'')) (Str (js ''failed'')) ringing) = ringing
   \<and> conversationHistory (state (call_status (Str (js ''CA7'')) (Str (js ''failed'')) ringing))
        (Str (js ''CA42'')) = conversationHistory ringing (Str (js ''CA42''))"
proof -
  have a: "Str (js ''completed'') \<in> {Str (js ''completed''), Str (js ''failed''), Str (js ''busy''),
                   Str (js ''no-answer'')}" by simp
  have b: "conversationHistory ringing (Str (js ''CA42'')) = Some [system_entry cfg0]"
    by (simp add: ringing_def twilio_voice_def)
  have c: "conversationHistory ringing (Str (js ''CA7'')) = None"
    by (simp add: ringing_def twilio_voice_def initial_server_def js_def)
  have d: "Str (js ''CA42'') \<noteq> Str (js ''CA7'')" by (simp add: js_def)
  show ?thesis
    using call_status_terminal [of "Str (js ''completed'')" "Str (js ''CA42'')" ringing
        "Str (js ''completed'')" "Str (js ''CA7'')"]
      call_status_terminal [of "Str (js ''failed'')" "Str (js ''CA7'')" ringing
        "Str (js ''completed'')" "Str (js ''CA42'')"] a b c d
    by blast
qed

section \<open>Properties of the audio file cleanup\<close>




section \<open>Properties of a turn of a call\<close>

lemma handleSarvam_history:
  "conversationHistory (snd (handleSarvamAIResponse e cfg tw msg callSid lang s))
     = conversationHistory s"
  by (auto simp: handleSarvamAIResponse_def sarvam_try_def writeFileSync_def
      scheduleAudioCleanup_def Let_def split: sum.splits option.splits if_splits)

lemma handleSarvam_history_pair:
  "handleSarvamAIResponse e cfg tw msg callSid lang s = (tw', s') \<Longrightarrow>
   conversationHistory s' = conversationHistory s"
  using handleSarvam_history [of e cfg tw msg callSid lang s] by simp

lemma languageName_of_code:
  "is_language_code k \<Longrightarrow>
   prop_text (languageName_of k) =
     (if k = js ''en'' then js ''English'' else if k = js ''hi'' then js ''Hindi''
      else if k = js ''ta'' then js ''Tamil'' else if k = js ''te'' then js ''Telugu''
      else if k = js ''ml'' then js ''Malayalam'' else if k = js ''kn'' then js ''Kannada''
      else if k = js ''mr'' then js ''Marathi'' else if k = js ''bn'' then js ''Bengali''
      else if k = js ''gu'' then js ''Gujarati'' else if k = js ''pa'' then js ''Punjabi''
      else js ''English'')"
  by (auto simp: languageName_of_def get_property_def or_default_def languageNames_def
      prop_text_def is_language_code_def object_prototype_keys_def js_def)

text \<open>
  Claim C5. For a known session and a non-empty utterance, let the language name be the
  name of the detected language (English for a code that is not one of the ten), and let
  the request be the one whose message array is one system message (the persona prompt
  followed by the instruction that makes that language mandatory for the response), then
  the stored history without its first entry, then one user message with the corrected
  text. When the completion provider answers that request, the two requests made in the
  turn are the correction request and then that request; and afterwards the stored
  history is the old one followed by exactly two entries, a user entry with the
  corrected text and an assistant entry with the answer, each with its language
  metadata.
\<close>

theorem handle_speech_appends_two:
  assumes "truthy userSpeech" and "truthy callSid"
    and "conversationHistory s callSid = Some history"
    and "detectLanguageAndCorrect e cfg userSpeech = Inr c"
    and "languageName =
           (if language c = js ''en'' then js ''English''
            else if language c = js ''hi'' then js ''Hindi''
            else if language c = js ''ta'' then js ''Tamil''
            else if language c = js ''te'' then js ''Telugu''
            else if language c = js ''ml'' then js ''Malayalam''
            else if language c = js ''kn'' then js ''Kannada''
            else if language c = js ''mr'' then js ''Marathi''
            else if language c = js ''bn'' then js ''Bengali''
            else if language c = js ''gu'' then js ''Gujarati''
            else if language c = js ''pa'' then js ''Punjabi''
            else js ''English'')"
    and "request =
           \<lparr>model = openAI_model cfg,
            messages =
              [\<lparr>role = js ''system'',
                content = Str (systemPrompt cfg
                     @ js ''\<newline>\<newline>CRITICAL LANGUAGE INSTRUCTION:\<newline>The user is speaking in ''
                     @ languageName @ js ''. You MUST respond ONLY in '' @ languageName
                     @ js ''.\<newline>- Write your ENTIRE response in '' @ languageName
                     @ js '' language\<newline>- For Indian languages, you can use Roman script (transliteration) or native script\<newline>- Do NOT use English at all unless the user is speaking English\<newline>- Do NOT mix languages\<newline>- Keep responses concise (under 30 words) for phone calls\<newline>\<newline>This is MANDATORY. Respond in ''
                     @ languageName @ js '' ONLY.''),
                metadata = NoMetadata\<rparr>]
              @ drop 1 history
              @ [\<lparr>role = js ''user'', content = correctedText c, metadata = NoMetadata\<rparr>],
            temperature = openAI_temperature cfg,
            max_tokens = openAI_maxTokens cfg\<rparr>"
    and "openai_create e request = Inr (Completion (gptResponse # others))"
  shows "sent (handle_speech e cfg callSid userSpeech s) =
           [correction_request cfg userSpeech, request]
       \<and> conversationHistory (state (handle_speech e cfg callSid userSpeech s)) callSid =
           Some (history
                 @ [\<lparr>role = js ''user'', content = correctedText c,
                     metadata = UserMetadata (language c) userSpeech\<rparr>,
                    \<lparr>role = js ''assistant'', content = gptResponse,
                     metadata = AssistantMetadata (language c)\<rparr>])"
proof -
  have n: "prop_text (languageName_of (language c)) = languageName"
    using languageName_of_code [OF detect_language_code [OF assms(4)]] assms(5) by simp
  have q: "turn_request cfg c history = request"
    by (simp add: turn_request_def messagesWithLanguage_def phone_instruction_def n assms(6)
        del: drop_Suc_Cons)
  let ?h' = "history
                 @ [\<lparr>role = js ''user'', content = correctedText c,
                     metadata = UserMetadata (language c) userSpeech\<rparr>,
                    \<lparr>role = js ''assistant'', content = gptResponse,
                     metadata = AssistantMetadata (language c)\<rparr>]"
  let ?s1 = "s\<lparr>conversationHistory := (conversationHistory s)(callSid \<mapsto> ?h')\<rparr>"
  let ?r = "if sarvam_configured e
          then handleSarvamAIResponse e cfg [] gptResponse callSid (language c) ?s1
          else ([Gather (gather cfg callSid (twilio_language cfg)) [Say gptResponse]], ?s1)"
  have h: "handle_speech_try e cfg callSid userSpeech history s =
             (Inr ?r, [correction_request cfg userSpeech, request])"
    using assms(4,7) by (simp add: handle_speech_try_def Let_def first_content_def q)
  have o: "handle_speech e cfg callSid userSpeech s =
             \<lparr>state = snd ?r, reply = TwiML (fst ?r),
              sent = [correction_request cfg userSpeech, request]\<rparr>"
    using assms(1-3) by (simp add: handle_speech_def h Let_def split: prod.splits)
  have k: "conversationHistory (snd ?r) = conversationHistory ?s1"
    by (simp add: handleSarvam_history)
  show ?thesis by (simp add: o k)
qed

theorem handle_speech_appends_two_witness:
  "truthy (Str (js ''I like drawing'')) \<and> truthy (Str (js ''CA42''))
   \<and> conversationHistory ringing (Str (js ''CA42'')) = Some [system_entry cfg0]
   \<and> detectLanguageAndCorrect drawing_env cfg0 (Str (js ''I like drawing'')) = Inr drawing_correction
   \<and> openai_create drawing_env drawing_request
       = Inr (Completion [Str (js ''Our Graphic Design course would suit you.'')])
   \<and> sent (handle_speech drawing_env cfg0 (Str (js ''CA42'')) (Str (js ''I like drawing'')) ringing)
       = [correction_request cfg0 (Str (js ''I like drawing'')), drawing_request]
   \<and> conversationHistory
        (state (handle_speech drawing_env cfg0 (Str (js ''CA42'')) (Str (js ''I like drawing'')) ringing))
        (Str (js ''CA42''))
       = Some ([system_entry cfg0]
               @ [\<lparr>role = js ''user'', content = Str (js ''I like drawing.''),
                   metadata = UserMetadata (js ''en'') (Str (js ''I like drawing''))\<rparr>,
                  \<lparr>role = js ''assistant'', content = Str (js ''Our Graphic Design course would suit you.''),
                   metadata = AssistantMetadata (js ''en'')\<rparr>])"
proof -
  have a: "truthy (Str (js ''I like drawing''))" and b: "truthy (Str (js ''CA42''))"
    by (simp_all add: js_def)
  have n: "js ''English'' =
           (if language drawing_correction = js ''en'' then js ''English''
            else if language drawing_correction = js ''hi'' then js ''Hindi''
            else if language drawing_correction = js ''ta'' then js ''Tamil''
            else if language drawing_correction = js ''te'' then js ''Telugu''
            else if language drawing_correction = js ''ml'' then js ''Malayalam''
            else if language drawing_correction = js ''kn'' then js ''Kannada''
            else if language drawing_correction = js ''mr'' then js ''Marathi''
            else if language drawing_correction = js ''bn'' then js ''Bengali''
            else if language drawing_correction = js ''gu'' then js ''Gujarati''
            else if language drawing_correction = js ''pa'' then js ''Punjabi''
            else js ''English'')"
    by (simp add: drawing_correction_def)
  have q: "drawing_request =
           \<lparr>model = openAI_model cfg0,
            messages =
              [\<lparr>role = js ''system'',
                content = Str (systemPrompt cfg0
                     @ js ''\<newline>\<newline>CRITICAL LANGUAGE INSTRUCTION:\<newline>The user is speaking in ''
                     @ js ''English'' @ js ''. You MUST respond ONLY in '' @ js ''English''
                     @ js ''.\<newline>- Write your ENTIRE response in '' @ js ''English''
                     @ js '' language\<newline>- For Indian languages, you can use Roman script (transliteration) or native script\<newline>- Do NOT use English at all unless the user is speaking English\<newline>- Do NOT mix languages\<newline>- Keep responses concise (under 30 words) for phone calls\<newline>\<newline>This is MANDATORY. Respond in ''
                     @ js ''English'' @ js '' ONLY.''),
                metadata = NoMetadata\<rparr>]
              @ drop 1 [system_entry cfg0]
              @ [\<lparr>role = js ''user'', content = correctedText drawing_correction,
                  metadata = NoMetadata\<rparr>],
            temperature = openAI_temperature cfg0,
            max_tokens = openAI_maxTokens cfg0\<rparr>"
    by (simp add: drawing_request_def cfg0_def drawing_correction_def)
  have o: "openai_create drawing_env drawing_request
       = Inr (Completion (Str (js ''Our Graphic Design course would suit you.'') # []))"
    by (simp add: drawing_env_def example_env_def provider_script_def drawing_request_def js_def)
  show ?thesis
    using handle_speech_appends_two [OF a b ringing_history drawing_detected n q o] a b
      ringing_history drawing_detected o
    by (simp add: drawing_correction_def)
qed

text \<open>
  Claim C10. For a known session and a non-empty utterance, when the call to the
  completion provider fails (or its answer has no choice) after the language correction
  returned, the whole server state is as before the turn, so the stored history has
  neither a new user entry nor a new assistant entry, and what is sent is the TwiML that
  asks the caller to speak again.
\<close>

theorem handle_speech_failure_atomic:
  assumes "truthy userSpeech" and "truthy callSid"
    and "conversationHistory s callSid = Some history"
    and "detectLanguageAndCorrect e cfg userSpeech = Inr c"
    and "openai_create e (turn_request cfg c history) = Inl err
         \<or> openai_create e (turn_request cfg c history) = Inr (Completion [])"
  shows "state (handle_speech e cfg callSid userSpeech s) = s
       \<and> reply (handle_speech e cfg callSid userSpeech s) =
           TwiML [Gather (gather cfg callSid (twilio_language cfg))
                    [Say (Str (js ''I seem to be having some trouble. Please try speaking again.''))],
                  Say (Str (js ''Thank you for calling. Goodbye.'')),
                  Hangup]"
  using assms
  by (auto simp: handle_speech_def handle_speech_try_def Let_def first_content_def)

theorem handle_speech_failure_atomic_witness:
  "truthy (Str (js ''I like drawing'')) \<and> truthy (Str (js ''CA42''))
   \<and> conversationHistory ringing (Str (js ''CA42'')) = Some [system_entry cfg0]
   \<and> detectLanguageAndCorrect quota_env cfg0 (Str (js ''I like drawing'')) = Inr drawing_correction
   \<and> openai_create quota_env (turn_request cfg0 drawing_correction [system_entry cfg0])
       = Inl (ProviderFailure (js ''429 quota exceeded''))
   \<and> state (handle_speech quota_env cfg0 (Str (js ''CA42'')) (Str (js ''I like drawing'')) ringing) = ringing
   \<and> reply (handle_speech quota_env cfg0 (Str (js ''CA42'')) (Str (js ''I like drawing'')) ringing) =
           TwiML [Gather (gather cfg0 (Str (js ''CA42'')) (twilio_language cfg0))
                    [Say (Str (js ''I seem to be having some trouble. Please try speaking again.''))],
                  Say (Str (js ''Thank you for calling. Goodbye.'')),
                  Hangup]"
  using handle_speech_failure_atomic [OF truthy_examples ringing_history quota_detected disjI1 [OF quota_refused]]
    truthy_examples ringing_history quota_detected quota_refused
  by simp

text \<open>
  Claim C8. In a turn of a call with the synthesis key configured, when the synthesis
  provider answers without an audio payload (no \<^verbatim>\<open>audios\<close>, an empty array, or a
  first payload that is empty), the \<^verbatim>\<open>try\<close> block of the synthesis step ends in an
  error, and the turn still answers with TwiML: a \<^verbatim>\<open>Gather\<close> holding a \<^verbatim>\<open>Say\<close>
  of the same reply text. No file is written and no cleanup is scheduled.
\<close>

theorem empty_payload_falls_back_to_say:
  assumes "truthy userSpeech" and "truthy callSid"
    and "conversationHistory s callSid = Some history"
    and "detectLanguageAndCorrect e cfg userSpeech = Inr c"
    and "openai_create e (turn_request cfg c history) = Inr (Completion (gptResponse # others))"
    and "sarvam_configured e"
    and "axios_post e (tts_body cfg gptResponse (language c)) = Inr r"
    and "first_audio r = Inl err \<or> (first_audio r = Inr a \<and> \<not> truthy a)"
  shows "(\<exists>err'. sarvam_try e cfg tw gptResponse callSid (language c) s' = Inl err')
       \<and> reply (handle_speech e cfg callSid userSpeech s) =
           TwiML [Gather (gather cfg callSid (twilio_language cfg)) [Say gptResponse]]
       \<and> files (state (handle_speech e cfg callSid userSpeech s)) = files s
       \<and> audioCleanupQueue (state (handle_speech e cfg callSid userSpeech s)) = audioCleanupQueue s
       \<and> timers (state (handle_speech e cfg callSid userSpeech s)) = timers s"
proof -
  have t: "\<And>tw s'. \<exists>err'. sarvam_try e cfg tw gptResponse callSid (language c) s' = Inl err'"
    using assms(7,8) by (auto simp: sarvam_try_def)
  have "\<And>tw s'. handleSarvamAIResponse e cfg tw gptResponse callSid (language c) s' =
          (tw @ [Gather (gather cfg callSid (twilio_language cfg)) [Say gptResponse]], s')"
  proof -
    fix tw s'
    from t obtain err' where "sarvam_try e cfg tw gptResponse callSid (language c) s' = Inl err'"
      by blast
    then show "handleSarvamAIResponse e cfg tw gptResponse callSid (language c) s' =
          (tw @ [Gather (gather cfg callSid (twilio_language cfg)) [Say gptResponse]], s')"
      by (simp add: handleSarvamAIResponse_def)
  qed
  then show ?thesis
    using assms(1-6) t
    by (simp add: handle_speech_def handle_speech_try_def Let_def first_content_def)
qed

theorem empty_payload_falls_back_to_say_witness:
  "truthy (Str (js ''I like drawing'')) \<and> truthy (Str (js ''CA42''))
   \<and> conversationHistory ringing (Str (js ''CA42'')) = Some [system_entry cfg0]
   \<and> detectLanguageAndCorrect silent_tts_env cfg0 (Str (js ''I like drawing'')) = Inr drawing_correction
   \<and> sarvam_configured silent_tts_env
   \<and> axios_post silent_tts_env (tts_body cfg0 (Str (js ''Our Graphic Design course would suit you.'')) (js ''en''))
       = Inr (TtsResponse (Some []))
   \<and> first_audio (TtsResponse (Some [])) = Inr Undefined
   \<and> (\<exists>err'. sarvam_try silent_tts_env cfg0 [] (Str (js ''Our Graphic Design course would suit you.''))
          (Str (js ''CA42'')) (js ''en'') ringing = Inl err')
   \<and> reply (handle_speech silent_tts_env cfg0 (Str (js ''CA42'')) (Str (js ''I like drawing'')) ringing) =
           TwiML [Gather (gather cfg0 (Str (js ''CA42'')) (twilio_language cfg0))
                    [Say (Str (js ''Our Graphic Design course would suit you.''))]]
   \<and> files (state (handle_speech silent_tts_env cfg0 (Str (js ''CA42'')) (Str (js ''I like drawing'')) ringing))
       = files ringing"
proof -
  have c: "sarvam_configured silent_tts_env"
    by (simp add: sarvam_configured_def silent_tts_env_def example_env_def js_def)
  have p: "axios_post silent_tts_env (tts_body cfg0 (Str (js ''Our Graphic Design course would suit you.'')) (language drawing_correction))
       = Inr (TtsResponse (Some []))"
    by (simp add: silent_tts_env_def example_env_def tts_says_def)
  have f: "first_audio (TtsResponse (Some [])) = Inl TypeError
           \<or> (first_audio (TtsResponse (Some [])) = Inr Undefined \<and> \<not> truthy Undefined)"
    by (simp add: first_audio_def)
  have l: "language drawing_correction = js ''en''" by (simp add: drawing_correction_def)
  show ?thesis
    using empty_payload_falls_back_to_say [OF truthy_examples ringing_history silent_detected
        silent_answered c p f, of "[]" ringing]
      truthy_examples ringing_history silent_detected c p f l
    by (simp add: first_audio_def)
qed

section \<open>Properties of the web chat endpoint\<close>

lemma chat_answer_greeting:
  "message req = Str (js ''__GREETING__'') \<Longrightarrow>
   chat_answer e cfg sid req =
     (Inr (Str greeting, js ''en'', [Info (js ''['' @ sid @ js ''] Sending greeting'')]), [])"
  by (simp add: chat_answer_def)

lemma chat_reply_ok:
  "chat_answer e cfg (sessionId_of e (x_session_id req)) req = (Inr (g, l, ls), asked) \<Longrightarrow>
   reply (chat e cfg req s)
     = ChatJson l g (fst (chat_audio e cfg (sessionId_of e (x_session_id req)) g l s))
   \<and> sent (chat e cfg req s) = asked"
  by (simp add: chat_def Let_def split: prod.splits)

text \<open>
  Claim C2 as the specification states it, with a \<^verbatim>\<open>null\<close> audio URL for every
  greeting request, fails: with the synthesis key configured and a provider that returns
  audio, the greeting is synthesised like any other answer and the response carries the
  URL of the new file.
\<close>

theorem chat_greeting_audio_counterexample:
  "message greeting_request = Str (js ''__GREETING__'')
   \<and> json_audioUrl (reply (chat voiced_env cfg0 greeting_request (initial_server Map.empty)))
       = Str (js ''/audio/0b1f.wav'')
   \<and> json_audioUrl (reply (chat voiced_env cfg0 greeting_request (initial_server Map.empty))) \<noteq> Null"
  by (simp add: chat_def chat_answer_def chat_audio_def chat_audio_try_def greeting_request_def
      voiced_env_def example_env_def tts_says_def sarvam_configured_def first_audio_def
      writeFileSync_def Let_def js_def)

lemma chat_audio_cases:
  "chat_audio e cfg sid g l s =
     (if sarvam_configured e then
        (case axios_post e (tts_body cfg g l) of
           Inl err \<Rightarrow> (Null, s, [Error (js ''[Sarvam AI Error for web chat]:'') err])
         | Inr r \<Rightarrow>
             (case first_audio r of
                Inl err \<Rightarrow> (Null, s, [Error (js ''[Sarvam AI Error for web chat]:'') err])
              | Inr a \<Rightarrow>
                  if truthy a then
                    (case writeFile_fails e of
                       Some err \<Rightarrow> (Null, s, [Error (js ''[Sarvam AI Error for web chat]:'') err])
                     | None \<Rightarrow>
                         (Str (js ''/audio/'' @ uuidv4 e @ js ''.wav''),
                          scheduleAudioCleanup (audioFilePath cfg (uuidv4 e @ js ''.wav'')) 60000
                            (s\<lparr>files := (files s)(audioFilePath cfg (uuidv4 e @ js ''.wav'')
                                                    \<mapsto> to_string a)\<rparr>),
                          [Info (js ''['' @ sid @ js ''] Audio saved: '' @ uuidv4 e @ js ''.wav'')]))
                  else (Null, s, [])))
      else (Null, s, []))"
  by (auto simp: chat_audio_def chat_audio_try_def writeFileSync_def Let_def
      split: sum.splits option.splits)

lemma chat_state_ok:
  "chat_answer e cfg (sessionId_of e (x_session_id req)) req = (Inr (g, l, ls), asked) \<Longrightarrow>
   state (chat e cfg req s)
     = fst (snd (chat_audio e cfg (sessionId_of e (x_session_id req)) g l s))"
  by (simp add: chat_def Let_def split: prod.splits)

text \<open>
  Claim C2, as amended. For a chat request whose message is the greeting sentinel,
  whatever the history sent with it, the response is the JSON with the language
  \<^verbatim>\<open>'en'\<close> and the fixed greeting, and no request is made to the completion provider.
  Its audio URL is \<^verbatim>\<open>null\<close>, and the server state is left as it was, when the
  synthesis key is not configured, when the synthesis call fails, when its answer has no
  audio payload, and when the file cannot be written. When synthesis is configured and
  succeeds, the audio URL is \<^verbatim>\<open>/audio/<uuid>.wav\<close>, the file
  \<^verbatim>\<open>public/audio/<uuid>.wav\<close> under the server directory holds the payload, no other
  file is touched, and the cleanup of that file is registered with a timer of 60000 ms.
\<close>

theorem chat_greeting:
  assumes "message req = Str (js ''__GREETING__'')"
  shows "\<exists>url. reply (chat e cfg req s) = ChatJson (js ''en'') (Str greeting) url
       \<and> sent (chat e cfg req s) = []
       \<and> (\<not> sarvam_configured e \<longrightarrow> url = Null \<and> state (chat e cfg req s) = s)
       \<and> (axios_post e (tts_body cfg (Str greeting) (js ''en'')) = Inl err \<longrightarrow>
            url = Null \<and> state (chat e cfg req s) = s)
       \<and> (axios_post e (tts_body cfg (Str greeting) (js ''en'')) = Inr r
            \<and> (first_audio r = Inl err \<or> (first_audio r = Inr a \<and> \<not> truthy a)) \<longrightarrow>
            url = Null \<and> state (chat e cfg req s) = s)
       \<and> (writeFile_fails e \<noteq> None \<longrightarrow> url = Null \<and> state (chat e cfg req s) = s)
       \<and> (sarvam_configured e
            \<and> axios_post e (tts_body cfg (Str greeting) (js ''en''))
                = Inr (TtsResponse (Some (payload # others)))
            \<and> truthy payload \<and> writeFile_fails e = None \<longrightarrow>
            url = Str (js ''/audio/'' @ uuidv4 e @ js ''.wav'')
            \<and> files (state (chat e cfg req s))
                 (dirname cfg @ js ''/public/audio/'' @ uuidv4 e @ js ''.wav'')
                = Some (to_string payload)
            \<and> (\<forall>q. q \<noteq> dirname cfg @ js ''/public/audio/'' @ uuidv4 e @ js ''.wav'' \<longrightarrow>
                  files (state (chat e cfg req s)) q = files s q)
            \<and> audioCleanupQueue (state (chat e cfg req s))
                 (dirname cfg @ js ''/public/audio/'' @ uuidv4 e @ js ''.wav'')
                = Some (next_timer s)
            \<and> timers (state (chat e cfg req s)) (next_timer s)
                = Some (dirname cfg @ js ''/public/audio/'' @ uuidv4 e @ js ''.wav'', 60000)
            \<and> conversationHistory (state (chat e cfg req s)) = conversationHistory s)"
proof -
  let ?sid = "sessionId_of e (x_session_id req)"
  let ?au = "chat_audio e cfg ?sid (Str greeting) (js ''en'') s"
  have r: "reply (chat e cfg req s) = ChatJson (js ''en'') (Str greeting) (fst ?au)
           \<and> sent (chat e cfg req s) = []"
    using chat_reply_ok [OF chat_answer_greeting [OF assms]] .
  have st: "state (chat e cfg req s) = fst (snd ?au)"
    using chat_state_ok [OF chat_answer_greeting [OF assms]] .
  show ?thesis
    apply (rule exI [of _ "fst ?au"])
    apply (simp only: r st chat_audio_cases)
    apply (auto simp: first_audio_def scheduleAudioCleanup_def audioFilePath_def Let_def
        split: sum.splits option.splits)
    done
qed

theorem chat_greeting_witness:
  "message greeting_request = Str (js ''__GREETING__'')
   \<and> sarvam_configured voiced_env
   \<and> reply (chat voiced_env cfg0 greeting_request (initial_server Map.empty))
       = ChatJson (js ''en'') (Str greeting) (Str (js ''/audio/'' @ uuidv4 voiced_env @ js ''.wav''))
   \<and> files (state (chat voiced_env cfg0 greeting_request (initial_server Map.empty)))
        (dirname cfg0 @ js ''/public/audio/'' @ uuidv4 voiced_env @ js ''.wav'')
       = Some (js ''UklGRg=='')
   \<and> audioCleanupQueue (state (chat voiced_env cfg0 greeting_request (initial_server Map.empty)))
        (dirname cfg0 @ js ''/public/audio/'' @ uuidv4 voiced_env @ js ''.wav'')
       = Some 0
   \<and> timers (state (chat voiced_env cfg0 greeting_request (initial_server Map.empty))) 0
       = Some (dirname cfg0 @ js ''/public/audio/'' @ uuidv4 voiced_env @ js ''.wav'', 60000)
   \<and> \<not> sarvam_configured (env_with provider_down)
   \<and> reply (chat (env_with provider_down) cfg0 greeting_request (initial_server Map.empty))
       = ChatJson (js ''en'') (Str greeting) Null
   \<and> state (chat (env_with provider_down) cfg0 greeting_request (initial_server Map.empty))
       = initial_server Map.empty
   \<and> sent (chat (env_with provider_down) cfg0 greeting_request (initial_server Map.empty)) = []"
proof -
  have m: "message greeting_request = Str (js ''__GREETING__'')" by (simp add: greeting_request_def)
  have c: "sarvam_configured voiced_env"
    by (simp add: sarvam_configured_def voiced_env_def example_env_def js_def)
  have n: "\<not> sarvam_configured (env_with provider_down)"
    by (simp add: sarvam_configured_def env_with_def example_env_def)
  have p: "axios_post voiced_env (tts_body cfg0 (Str greeting) (js ''en''))
             = Inr (TtsResponse (Some (Str (js ''UklGRg=='') # [])))
           \<and> truthy (Str (js ''UklGRg=='')) \<and> writeFile_fails voiced_env = None"
    by (simp add: voiced_env_def example_env_def tts_says_def js_def)
  have z: "next_timer (initial_server Map.empty) = 0" by (simp add: initial_server_def)
  show ?thesis
    using chat_greeting [OF m, where e = voiced_env and cfg = cfg0 and s = "initial_server Map.empty"
        and err = TypeError and r = "TtsResponse None" and a = Null
        and payload = "Str (js ''UklGRg=='')" and others = "[]"]
      chat_greeting [OF m, where e = "env_with provider_down" and cfg = cfg0
        and s = "initial_server Map.empty" and err = TypeError and r = "TtsResponse None"
        and a = Null and payload = Null and others = "[]"]
      m c n p z
    by auto
qed

lemma chat_answer_sid:
  "snd (chat_answer e cfg sid req) = snd (chat_answer e cfg sid' req)
   \<and> map_sum id (\<lambda>(g, l, ls). (g, l)) (fst (chat_answer e cfg sid req))
       = map_sum id (\<lambda>(g, l, ls). (g, l)) (fst (chat_answer e cfg sid' req))"
  by (auto simp: chat_answer_def Let_def split: sum.splits option.splits)

lemma chat_audio_sid:
  "fst (chat_audio e cfg sid g l s) = fst (chat_audio e cfg sid' g l s)
   \<and> fst (snd (chat_audio e cfg sid g l s)) = fst (snd (chat_audio e cfg sid' g l s))"
  by (auto simp: chat_audio_def chat_audio_try_def Let_def split: sum.splits option.splits)

lemma chat_result:
  "state (chat e cfg req s) = state (chat_result e cfg (sessionId_of e (x_session_id req)) req s)
   \<and> reply (chat e cfg req s) = reply (chat_result e cfg (sessionId_of e (x_session_id req)) req s)
   \<and> sent (chat e cfg req s) = sent (chat_result e cfg (sessionId_of e (x_session_id req)) req s)"
  by (auto simp: chat_def chat_result_def Let_def split: prod.splits sum.splits)

lemma chat_result_sid: "chat_result e cfg sid req s = chat_result e cfg sid' req s"
proof -
  obtain r a where 1: "chat_answer e cfg sid req = (r, a)"
    by (cases "chat_answer e cfg sid req")
  obtain r' a' where 2: "chat_answer e cfg sid' req = (r', a')"
    by (cases "chat_answer e cfg sid' req")
  from chat_answer_sid [of e cfg sid req sid'] 1 2
  have aa: "a = a'"
    and rr: "map_sum id (\<lambda>(g, l, ls). (g, l)) r = map_sum id (\<lambda>(g, l, ls). (g, l)) r'"
    by simp_all
  show ?thesis
  proof (cases r)
    case (Inl x)
    with rr have "r' = Inl x" by (cases r') auto
    with Inl 1 2 aa show ?thesis by (simp add: chat_result_def)
  next
    case (Inr y)
    obtain g l ls where y: "y = (g, l, ls)" by (cases y)
    with Inr rr obtain ls' where "r' = Inr (g, l, ls')" by (cases r') auto
    with Inr y 1 2 aa chat_audio_sid [of e cfg sid g l s sid'] show ?thesis
      by (auto simp: chat_result_def split: prod.splits)
  qed
qed

lemma chat_result_env:
  "chat_result (e\<lparr>Date_now := t\<rparr>) cfg sid req s = chat_result e cfg sid req s"
proof -
  have d: "\<And>x. detectLanguageAndCorrect (e\<lparr>Date_now := t\<rparr>) cfg x = detectLanguageAndCorrect e cfg x"
    by (simp add: detectLanguageAndCorrect_def detect_try_def)
  have a: "chat_answer (e\<lparr>Date_now := t\<rparr>) cfg sid req = chat_answer e cfg sid req"
    by (simp add: chat_answer_def d Let_def cong: sum.case_cong option.case_cong)
  have b: "\<And>g l. chat_audio (e\<lparr>Date_now := t\<rparr>) cfg sid g l s = chat_audio e cfg sid g l s"
  proof -
    fix g l
    have w: "\<And>p d s. writeFileSync (e\<lparr>Date_now := t\<rparr>) p d s = writeFileSync e p d s"
      by (simp add: writeFileSync_def)
    have "chat_audio_try (e\<lparr>Date_now := t\<rparr>) cfg sid g l s = chat_audio_try e cfg sid g l s"
      by (simp add: chat_audio_try_def w Let_def cong: sum.case_cong if_cong)
    then show "chat_audio (e\<lparr>Date_now := t\<rparr>) cfg sid g l s = chat_audio e cfg sid g l s"
      by (simp add: chat_audio_def sarvam_configured_def)
  qed
  show ?thesis by (auto simp: chat_result_def a b split: prod.splits sum.splits)
qed

lemma chat_result_header:
  "chat_result e cfg sid (req\<lparr>x_session_id := a\<rparr>) s = chat_result e cfg sid req s"
proof -
  have "chat_answer e cfg sid (req\<lparr>x_session_id := a\<rparr>) = chat_answer e cfg sid req"
    by (simp add: chat_answer_def Let_def cong: sum.case_cong option.case_cong)
  then show ?thesis by (simp add: chat_result_def)
qed

text \<open>
  Claim C9. Two chat requests with the same body, under the same state and the same
  behaviour of the providers, get the same response, leave the same state and make the
  same requests to the completion provider, whatever their \<^verbatim>\<open>x-session-id\<close> headers
  and whatever the clock shows (the clock is read for the default session identifier
  only): the header reaches the log lines and nothing else.
\<close>

theorem chat_session_header_only_logged:
  "reply (chat (e\<lparr>Date_now := t\<rparr>) cfg (req\<lparr>x_session_id := a\<rparr>) s)
     = reply (chat (e\<lparr>Date_now := t'\<rparr>) cfg (req\<lparr>x_session_id := b\<rparr>) s)
   \<and> state (chat (e\<lparr>Date_now := t\<rparr>) cfg (req\<lparr>x_session_id := a\<rparr>) s)
     = state (chat (e\<lparr>Date_now := t'\<rparr>) cfg (req\<lparr>x_session_id := b\<rparr>) s)
   \<and> sent (chat (e\<lparr>Date_now := t\<rparr>) cfg (req\<lparr>x_session_id := a\<rparr>) s)
     = sent (chat (e\<lparr>Date_now := t'\<rparr>) cfg (req\<lparr>x_session_id := b\<rparr>) s)"
proof -
  have "\<And>t a. chat_result (e\<lparr>Date_now := t\<rparr>) cfg (sessionId_of (e\<lparr>Date_now := t\<rparr>) a)
                 (req\<lparr>x_session_id := a\<rparr>) s
               = chat_result e cfg [] req s"
    using chat_result_sid by (simp add: chat_result_env chat_result_header)
  then show ?thesis by (simp add: chat_result)
qed

theorem chat_session_header_only_logged_witness:
  "reply (chat (voiced_env\<lparr>Date_now := 1700\<rparr>) cfg0 (greeting_request\<lparr>x_session_id := Str (js ''alice'')\<rparr>) (initial_server Map.empty))
     = reply (chat (voiced_env\<lparr>Date_now := 1701\<rparr>) cfg0 (greeting_request\<lparr>x_session_id := Undefined\<rparr>) (initial_server Map.empty))
   \<and> logged (chat (voiced_env\<lparr>Date_now := 1700\<rparr>) cfg0 (greeting_request\<lparr>x_session_id := Str (js ''alice'')\<rparr>) (initial_server Map.empty))
     \<noteq> logged (chat (voiced_env\<lparr>Date_now := 1701\<rparr>) cfg0 (greeting_request\<lparr>x_session_id := Undefined\<rparr>) (initial_server Map.empty))"
proof -
  have "hd (logged (chat (voiced_env\<lparr>Date_now := 1700\<rparr>) cfg0 (greeting_request\<lparr>x_session_id := Str (js ''alice'')\<rparr>) (initial_server Map.empty)))
     \<noteq> hd (logged (chat (voiced_env\<lparr>Date_now := 1701\<rparr>) cfg0 (greeting_request\<lparr>x_session_id := Undefined\<rparr>) (initial_server Map.empty)))"
    by (simp add: chat_def chat_answer_def chat_audio_def chat_audio_try_def greeting_request_def
      voiced_env_def example_env_def tts_says_def sarvam_configured_def first_audio_def
      writeFileSync_def Let_def sessionId_of_def js_def)
  then show ?thesis
    using chat_session_header_only_logged [where e = voiced_env and t = 1700 and cfg = cfg0
        and req = greeting_request and a = "Str (js ''alice'')" and s = "initial_server Map.empty"
        and t' = 1701 and b = Undefined]
    by auto
qed

section \<open>The stored transcripts\<close>

lemma alternates_append:
  "alternates xs \<Longrightarrow> role u = js ''user'' \<Longrightarrow> role a = js ''assistant'' \<Longrightarrow>
   alternates (xs @ [u, a])"
  by (induction xs rule: alternates.induct) auto

lemma alternates_roles:
  "alternates xs \<Longrightarrow> m \<in> set xs \<Longrightarrow> role m = js ''user'' \<or> role m = js ''assistant''"
  by (induction xs rule: alternates.induct) auto

lemma alternates_no_repeat:
  "alternates xs \<Longrightarrow> no_repeated_role xs \<and> (xs \<noteq> [] \<longrightarrow> role (hd xs) = js ''user'')"
proof (induction xs rule: alternates.induct)
  case (3 u a rest)
  then show ?case by (cases rest) (auto simp: js_def)
qed auto

lemma well_formed_no_repeat: "well_formed cfg h \<Longrightarrow> no_repeated_role h"
proof -
  assume "well_formed cfg h"
  then obtain rest where h: "h = system_entry cfg # rest" and a: "alternates rest"
    by (auto simp: well_formed_def split: list.splits)
  from alternates_no_repeat [OF a] h show ?thesis
    by (cases rest) (auto simp: system_entry_def js_def)
qed

lemma well_formed_append:
  "well_formed cfg h \<Longrightarrow> role u = js ''user'' \<Longrightarrow> role a = js ''assistant'' \<Longrightarrow>
   well_formed cfg (h @ [u, a])"
  using alternates_append by (auto simp: well_formed_def split: list.splits)

lemma handle_speech_try_keeps:
  "handle_speech_try e cfg callSid speech h s = (Inr (tw, s1), asked) \<Longrightarrow> well_formed cfg h \<Longrightarrow>
   transcripts_well_formed cfg s \<Longrightarrow> transcripts_well_formed cfg s1"
  by (auto simp: handle_speech_try_def Let_def transcripts_well_formed_def well_formed_append
      split: sum.splits if_splits dest!: handleSarvam_history_pair)

lemma handle_speech_keeps:
  "transcripts_well_formed cfg s \<Longrightarrow>
   transcripts_well_formed cfg (state (handle_speech e cfg callSid speech s))"
proof -
  assume i: "transcripts_well_formed cfg s"
  show ?thesis
  proof (cases "truthy speech \<and> truthy callSid \<and> conversationHistory s callSid \<noteq> None")
    case False
    with i show ?thesis by (auto simp: handle_speech_def)
  next
    case True
    then obtain h where h: "conversationHistory s callSid = Some h" by auto
    with i have w: "well_formed cfg h" by (simp add: transcripts_well_formed_def)
    obtain r asked where t: "handle_speech_try e cfg callSid speech h s = (r, asked)"
      by (cases "handle_speech_try e cfg callSid speech h s")
    show ?thesis
    proof (cases r)
      case (Inl err)
      with True h t i show ?thesis by (simp add: handle_speech_def)
    next
      case (Inr p)
      obtain tw s1 where "p = (tw, s1)" by (cases p)
      with Inr t handle_speech_try_keeps [OF _ w i] True h show ?thesis
        by (simp add: handle_speech_def)
    qed
  qed
qed

lemma chat_history: "conversationHistory (state (chat e cfg req s)) = conversationHistory s"
  by (auto simp: chat_def chat_audio_def chat_audio_try_def writeFileSync_def
      scheduleAudioCleanup_def Let_def split: sum.splits prod.splits option.splits)

lemma timer_history: "conversationHistory (timer_fires refused t s) = conversationHistory s"
  by (auto simp: timer_fires_def cleanup_callback_def cleanup_try_def unlinkSync_def
      split: sum.splits prod.splits option.splits if_splits)

lemma step_keeps:
  "transcripts_well_formed cfg s \<Longrightarrow> transcripts_well_formed cfg (step cfg s ev)"
proof (cases ev)
  case (CallStart callSid)
  assume "transcripts_well_formed cfg s"
  then show ?thesis using CallStart
    by (auto simp: transcripts_well_formed_def twilio_voice_def well_formed_def)
next
  case (SpeechResult e callSid speech)
  assume "transcripts_well_formed cfg s"
  then show ?thesis using SpeechResult by (simp add: handle_speech_keeps)
next
  case (CallStatus callSid st)
  assume "transcripts_well_formed cfg s"
  then show ?thesis using CallStatus
    by (auto simp: transcripts_well_formed_def call_status_def split: if_splits)
next
  case (WebChat e req)
  assume "transcripts_well_formed cfg s"
  then show ?thesis using WebChat by (simp add: transcripts_well_formed_def chat_history)
next
  case (TimerFires t refused)
  assume "transcripts_well_formed cfg s"
  then show ?thesis using TimerFires by (simp add: transcripts_well_formed_def timer_history)
qed

lemma run_keeps:
  "transcripts_well_formed cfg s \<Longrightarrow> transcripts_well_formed cfg (run cfg evs s)"
  unfolding run_def by (induction evs arbitrary: s) (auto intro: step_keeps)

text \<open>
  Claim C6. In every state that the server reaches from its start by call-start
  webhooks, speech results (whether the turn succeeds or not), call-status webhooks, chat
  requests and timers, every stored transcript is the system entry followed by pairs of a
  user entry and an assistant entry, so no two consecutive entries have the same role;
  and the system message with the language instruction, built for one turn, is not an
  entry of any stored transcript.
\<close>

theorem transcript_never_repeats_role:
  "conversationHistory (run cfg evs (initial_server fs)) callSid = Some h \<Longrightarrow>
     no_repeated_role h \<and> well_formed cfg h
     \<and> \<lparr>role = js ''system'', content = Str (systemPrompt cfg @ phone_instruction name),
         metadata = NoMetadata\<rparr> \<notin> set h"
proof -
  assume a: "conversationHistory (run cfg evs (initial_server fs)) callSid = Some h"
  have "transcripts_well_formed cfg (initial_server fs)"
    by (simp add: transcripts_well_formed_def initial_server_def)
  from run_keeps [OF this] a have w: "well_formed cfg h"
    by (simp add: transcripts_well_formed_def)
  then obtain rest where h: "h = system_entry cfg # rest" and r: "alternates rest"
    by (auto simp: well_formed_def split: list.splits)
  let ?syn = "\<lparr>role = js ''system'', content = Str (systemPrompt cfg @ phone_instruction name),
         metadata = NoMetadata\<rparr>"
  have "phone_instruction name \<noteq> []" by (simp add: phone_instruction_def js_def)
  then have 1: "?syn \<noteq> system_entry cfg" by (simp add: system_entry_def)
  have 2: "?syn \<notin> set rest"
  proof
    assume "?syn \<in> set rest"
    from alternates_roles [OF r this] show False by (simp add: js_def)
  qed
  from 1 2 h have "?syn \<notin> set h" by simp
  with w well_formed_no_repeat [OF w] show ?thesis by simp
qed

theorem transcript_never_repeats_role_witness:
  "conversationHistory
     (run cfg0 [CallStart (Str (js ''CA42'')),
                SpeechResult drawing_env (Str (js ''CA42'')) (Str (js ''I like drawing''))]
        (initial_server Map.empty))
     (Str (js ''CA42''))
   = Some [system_entry cfg0,
           \<lparr>role = js ''user'', content = Str (js ''I like drawing.''),
             metadata = UserMetadata (js ''en'') (Str (js ''I like drawing''))\<rparr>,
           \<lparr>role = js ''assistant'', content = Str (js ''Our Graphic Design course would suit you.''),
             metadata = AssistantMetadata (js ''en'')\<rparr>]
   \<and> no_repeated_role
       [system_entry cfg0,
           \<lparr>role = js ''user'', content = Str (js ''I like drawing.''),
             metadata = UserMetadata (js ''en'') (Str (js ''I like drawing''))\<rparr>,
           \<lparr>role = js ''assistant'', content = Str (js ''Our Graphic Design course would suit you.''),
             metadata = AssistantMetadata (js ''en'')\<rparr>]
   \<and> \<lparr>role = js ''system'', content = Str (systemPrompt cfg0 @ phone_instruction (js ''English'')),
         metadata = NoMetadata\<rparr>
       \<notin> set [system_entry cfg0,
           \<lparr>role = js ''user'', content = Str (js ''I like drawing.''),
             metadata = UserMetadata (js ''en'') (Str (js ''I like drawing''))\<rparr>,
           \<lparr>role = js ''assistant'', content = Str (js ''Our Graphic Design course would suit you.''),
             metadata = AssistantMetadata (js ''en'')\<rparr>]"
proof -
  have r: "conversationHistory
     (run cfg0 [CallStart (Str (js ''CA42'')),
                SpeechResult drawing_env (Str (js ''CA42'')) (Str (js ''I like drawing''))]
        (initial_server Map.empty))
     (Str (js ''CA42''))
   = Some [system_entry cfg0,
           \<lparr>role = js ''user'', content = Str (js ''I like drawing.''),
             metadata = UserMetadata (js ''en'') (Str (js ''I like drawing''))\<rparr>,
           \<lparr>role = js ''assistant'', content = Str (js ''Our Graphic Design course would suit you.''),
             metadata = AssistantMetadata (js ''en'')\<rparr>]"
    using drawing_turn by (simp add: run_def ringing_def)
  show ?thesis
    using transcript_never_repeats_role [OF r, of "js ''English''"] r by blast
qed

end
